theory Spec2Isabelle
  imports Main "HOL-Library.Char_ord" "HOL-Library.List_Lexorder" "HOL-Library.Sublist"
begin

section \<open>Python values used by the ticket-creation pipeline\<close>

text \<open>
  Strings are Python \<open>str\<close> values whose code points lie below 256; a \<^typ>\<open>char\<close> is one
  code point. The character classes below are those of \<open>str.isspace\<close>, \<open>str.isalnum\<close> and
  \<open>str.lower\<close> on that range. Strings are compared as Python compares them: code point by
  code point (the lexicographic order on \<^typ>\<open>string\<close>).
\<close>

definition py_isspace :: "char \<Rightarrow> bool" where
  "py_isspace c =
     (let n = (of_char c :: nat)
      in (9 \<le> n \<and> n \<le> 13) \<or> (28 \<le> n \<and> n \<le> 32) \<or> n = 133 \<or> n = 160)"

definition py_isdigit :: "char \<Rightarrow> bool" where
  "py_isdigit c = (let n = (of_char c :: nat) in 48 \<le> n \<and> n \<le> 57)"

definition py_isalnum :: "char \<Rightarrow> bool" where
  "py_isalnum c =
     (let n = (of_char c :: nat)
      in (48 \<le> n \<and> n \<le> 57) \<or> (65 \<le> n \<and> n \<le> 90) \<or> (97 \<le> n \<and> n \<le> 122)
         \<or> n = 170 \<or> n = 178 \<or> n = 179 \<or> n = 181 \<or> n = 185 \<or> n = 186
         \<or> (188 \<le> n \<and> n \<le> 190) \<or> (192 \<le> n \<and> n \<le> 214)
         \<or> (216 \<le> n \<and> n \<le> 246) \<or> 248 \<le> n)"

definition py_lower_char :: "char \<Rightarrow> char" where
  "py_lower_char c =
     (let n = (of_char c :: nat)
      in if (65 \<le> n \<and> n \<le> 90) \<or> (192 \<le> n \<and> n \<le> 214) \<or> (216 \<le> n \<and> n \<le> 222)
         then char_of (n + 32) else c)"

definition py_lower :: "string \<Rightarrow> string" where
  "py_lower s = map py_lower_char s"

text \<open>\<open>s.strip()\<close>: white space removed at both ends.\<close>

definition py_strip :: "string \<Rightarrow> string" where
  "py_strip s = rev (dropWhile py_isspace (rev (dropWhile py_isspace s)))"

text \<open>\<open>s.split(sep)\<close> for a one-character separator: never the empty list.\<close>

fun py_split :: "char \<Rightarrow> string \<Rightarrow> string list" where
  "py_split sep [] = [[]]"
| "py_split sep (c # cs) =
     (if c = sep then [] # py_split sep cs
      else (case py_split sep cs of [] \<Rightarrow> [[c]] | w # ws \<Rightarrow> (c # w) # ws))"

text \<open>\<open>a in b\<close> on two strings: \<open>a\<close> occurs in \<open>b\<close> as a contiguous run.\<close>

fun py_in_str :: "string \<Rightarrow> string \<Rightarrow> bool" where
  "py_in_str a [] = (a = [])"
| "py_in_str a (c # cs) = (prefix a (c # cs) \<or> py_in_str a cs)"

subsection \<open>Calendar dates\<close>

text \<open>
  \<open>datetime.date\<close>: year, month, day. Python only builds dates that satisfy
  \<open>valid_date\<close> (year 1 to 9999, a day that the month has).
\<close>

datatype date = Date (year: nat) (month: nat) (day: nat)

definition is_leap :: "nat \<Rightarrow> bool" where
  "is_leap y = (y mod 4 = 0 \<and> (y mod 100 \<noteq> 0 \<or> y mod 400 = 0))"

definition days_in_month :: "nat \<Rightarrow> nat \<Rightarrow> nat" where
  "days_in_month y m =
     (if m = 2 then (if is_leap y then 29 else 28)
      else if m = 4 \<or> m = 6 \<or> m = 9 \<or> m = 11 then 30 else 31)"

definition valid_date :: "date \<Rightarrow> bool" where
  "valid_date d =
     (1 \<le> year d \<and> year d \<le> 9999 \<and> 1 \<le> month d \<and> month d \<le> 12
      \<and> 1 \<le> day d \<and> day d \<le> days_in_month (year d) (month d))"

text \<open>\<open>d1 < d2\<close> and \<open>d1 > d2\<close> on dates: year, then month, then day.\<close>

definition date_less :: "date \<Rightarrow> date \<Rightarrow> bool" where
  "date_less a b =
     (year a < year b \<or> (year a = year b \<and>
        (month a < month b \<or> (month a = month b \<and> day a < day b))))"

definition digit_char :: "nat \<Rightarrow> char" where
  "digit_char n = char_of (48 + n mod 10)"

definition pad2 :: "nat \<Rightarrow> string" where
  "pad2 n = [digit_char (n div 10), digit_char n]"

definition pad4 :: "nat \<Rightarrow> string" where
  "pad4 n = [digit_char (n div 1000), digit_char (n div 100), digit_char (n div 10), digit_char n]"

text \<open>\<open>d.isoformat()\<close>: \<open>YYYY-MM-DD\<close>, zero padded.\<close>

definition isoformat :: "date \<Rightarrow> string" where
  "isoformat d = pad4 (year d) @ ''-'' @ pad2 (month d) @ ''-'' @ pad2 (day d)"

text \<open>
  \<open>datetime.strptime(s, '%Y-%m-%d').date()\<close>. The directive \<open>%Y\<close> takes exactly four
  digits, \<open>%m\<close> one of \<open>1[0-2] | 0[1-9] | [1-9]\<close>, \<open>%d\<close> one of
  \<open>3[0-1] | [1-2]\d | 0[1-9] | [1-9] | ' '[1-9]\<close>; the whole string has to be consumed
  and the numbers have to form a date. \<open>None\<close> stands for the \<open>ValueError\<close>.
\<close>

definition digit_val :: "char \<Rightarrow> nat" where
  "digit_val c = of_char c - 48"

definition parse_month :: "string \<Rightarrow> nat option" where
  "parse_month s =
     (case s of
        [a] \<Rightarrow> if py_isdigit a \<and> a \<noteq> CHR ''0'' then Some (digit_val a) else None
      | [a, b] \<Rightarrow>
          if a = CHR ''1'' \<and> (b = CHR ''0'' \<or> b = CHR ''1'' \<or> b = CHR ''2'')
            then Some (10 + digit_val b)
          else if a = CHR ''0'' \<and> py_isdigit b \<and> b \<noteq> CHR ''0'' then Some (digit_val b)
          else None
      | _ \<Rightarrow> None)"

definition parse_day :: "string \<Rightarrow> nat option" where
  "parse_day s =
     (case s of
        [a] \<Rightarrow> if py_isdigit a \<and> a \<noteq> CHR ''0'' then Some (digit_val a) else None
      | [a, b] \<Rightarrow>
          if a = CHR ''3'' \<and> (b = CHR ''0'' \<or> b = CHR ''1'') then Some (30 + digit_val b)
          else if (a = CHR ''1'' \<or> a = CHR ''2'') \<and> py_isdigit b
            then Some (10 * digit_val a + digit_val b)
          else if (a = CHR ''0'' \<or> a = CHR '' '') \<and> py_isdigit b \<and> b \<noteq> CHR ''0''
            then Some (digit_val b)
          else None
      | _ \<Rightarrow> None)"

definition strptime_ymd :: "string \<Rightarrow> date option" where
  "strptime_ymd s =
     (case s of
        y1 # y2 # y3 # y4 # dash # rest \<Rightarrow>
          if py_isdigit y1 \<and> py_isdigit y2 \<and> py_isdigit y3 \<and> py_isdigit y4
             \<and> dash = CHR ''-''
          then
            (let mtok = takeWhile (\<lambda>c. c \<noteq> CHR ''-'') rest;
                 after = dropWhile (\<lambda>c. c \<noteq> CHR ''-'') rest
             in case after of
                  [] \<Rightarrow> None
                | _ # dtok \<Rightarrow>
                    (case (parse_month mtok, parse_day dtok) of
                       (Some m, Some d) \<Rightarrow>
                         (let dt = Date (1000 * digit_val y1 + 100 * digit_val y2
                                         + 10 * digit_val y3 + digit_val y4) m d
                          in if valid_date dt then Some dt else None)
                     | _ \<Rightarrow> None))
          else None
      | _ \<Rightarrow> None)"

subsection \<open>Row values\<close>

text \<open>
  A value a database row can hold: \<open>None\<close>, a string, an integer, a \<open>date\<close>, a
  \<open>datetime\<close> (its date and its time of day in seconds) or a list.
\<close>

datatype pyval =
    PNone
  | PStr string
  | PInt int
  | PDate date
  | PDateTime date nat
  | PList "pyval list"

text \<open>Truth value of a Python object, as \<open>if x\<close>, \<open>not x\<close> and \<open>x or y\<close> take it.\<close>

fun truthy :: "pyval \<Rightarrow> bool" where
  "truthy PNone = False"
| "truthy (PStr s) = (s \<noteq> [])"
| "truthy (PInt i) = (i \<noteq> 0)"
| "truthy (PDate d) = True"
| "truthy (PDateTime d t) = True"
| "truthy (PList xs) = (xs \<noteq> [])"

text \<open>\<open>d.get(k)\<close> on a dictionary with \<open>Any\<close> values: \<open>None\<close> for a missing key.\<close>

definition get_val :: "(string \<times> pyval) list \<Rightarrow> string \<Rightarrow> pyval" where
  "get_val d k = (case map_of d k of None \<Rightarrow> PNone | Some v \<Rightarrow> v)"

text \<open>
  A row (\<open>Dict[str, Any]\<close>). The three identity columns hold text or \<open>NULL\<close>
  (\<open>process_row\<close> hands the identity key back as \<open>Optional[str]\<close>); every other column is
  in \<open>cols\<close>.
\<close>

record row =
  emailaddress :: "string option"
  email :: "string option"
  Email :: "string option"
  cols :: "(string \<times> pyval) list"

text \<open>\<open>r.get(k)\<close> on a row: \<open>None\<close> for a column the row does not have.\<close>

definition opt_str :: "string option \<Rightarrow> pyval" where
  "opt_str e = (case e of None \<Rightarrow> PNone | Some s \<Rightarrow> PStr s)"

definition row_get :: "row \<Rightarrow> string \<Rightarrow> pyval" where
  "row_get r k =
     (if k = ''emailaddress'' then opt_str (emailaddress r)
      else if k = ''email'' then opt_str (email r)
      else if k = ''Email'' then opt_str (Email r)
      else get_val (cols r) k)"

text \<open>\<open>a or b\<close> on \<open>Optional[str]\<close>: \<open>a\<close> when it is a non-empty string, else \<open>b\<close>.\<close>

definition str_truthy :: "string option \<Rightarrow> bool" where
  "str_truthy e = (case e of None \<Rightarrow> False | Some s \<Rightarrow> s \<noteq> [])"

definition py_or :: "string option \<Rightarrow> string option \<Rightarrow> string option" where
  "py_or a b = (if str_truthy a then a else b)"

text \<open>\<open>r.get('emailaddress') or r.get('email') or r.get('Email')\<close>\<close>

definition row_email :: "row \<Rightarrow> string option" where
  "row_email r = py_or (py_or (emailaddress r) (email r)) (Email r)"

section \<open>transformer.py: \<open>to_date_obj\<close>\<close>

fun to_date_obj :: "pyval \<Rightarrow> date option" where
  "to_date_obj PNone = None"
| "to_date_obj (PDate d) = Some d"
| "to_date_obj (PDateTime d t) = Some d"
| "to_date_obj (PStr s) = strptime_ymd (take 10 s)"
| "to_date_obj (PInt i) = None"
| "to_date_obj (PList xs) = None"

subsection \<open>JSON values\<close>

text \<open>What \<open>json.load\<close> can return; numbers are integers here.\<close>

datatype json =
    JNull
  | JBool bool
  | JNum int
  | JStr string
  | JArr "json list"
  | JObj "(string \<times> json) list"

section \<open>The tracking state\<close>

text \<open>
  The tracking dictionary with the four keys of \<open>DEFAULT_STATE\<close>. \<open>last_run_date\<close> is
  \<open>None\<close> when the key is missing or holds \<open>None\<close>; each of the other three is \<open>None\<close>
  when its key is missing. Dictionaries are association lists in insertion order; the
  key of \<open>flagged_requests\<close> is the row's identity key, which may be \<open>None\<close>; the
  value \<open>email_to_issue\<close> keeps for a key is the issue reference taken from the
  response of the ticket system.
\<close>

record tracking =
  last_run_date :: "string option"
  processed_emails_same_date :: "string list option"
  email_to_issue :: "(string \<times> json) list option"
  flagged_requests :: "(string option \<times> string) list option"

text \<open>\<open>d[k] = v\<close>: the value is replaced where the key is, a new key goes to the end.\<close>

fun dict_set :: "('k \<times> 'v) list \<Rightarrow> 'k \<Rightarrow> 'v \<Rightarrow> ('k \<times> 'v) list" where
  "dict_set [] k v = [(k, v)]"
| "dict_set ((k', v') # d) k v =
     (if k' = k then (k, v) # d else (k', v') # dict_set d k v)"

text \<open>\<open>tracking.get(key, default)\<close>\<close>

definition get_or :: "'a option \<Rightarrow> 'a \<Rightarrow> 'a" where
  "get_or x dflt = (case x of None \<Rightarrow> dflt | Some v \<Rightarrow> v)"

section \<open>tracking\_manager.py\<close>

text \<open>
  The loop of \<open>filter_rows_for_processing\<close>, one row at a time; \<open>to_process\<close> is
  returned in the order of the input.
\<close>

fun filter_loop :: "string option \<Rightarrow> string set \<Rightarrow> row list \<Rightarrow> row list" where
  "filter_loop lrd processed [] = []"
| "filter_loop lrd processed (r # rows) =
     (case to_date_obj (row_get r ''createdat'') of
        None \<Rightarrow> filter_loop lrd processed rows
      | Some rd \<Rightarrow>
          (let row_date_str = isoformat rd;
               em = row_email r
           in case lrd of
                None \<Rightarrow> r # filter_loop lrd processed rows
              | Some wm \<Rightarrow>
                  if row_date_str > wm then r # filter_loop lrd processed rows
                  else if row_date_str = wm then
                    (case em of
                       None \<Rightarrow> filter_loop lrd processed rows
                     | Some e \<Rightarrow>
                         if e = [] then filter_loop lrd processed rows
                         else if e \<notin> processed then r # filter_loop lrd processed rows
                         else filter_loop lrd processed rows)
                  else filter_loop lrd processed rows))"

definition filter_rows_for_processing :: "row list \<Rightarrow> tracking \<Rightarrow> row list" where
  "filter_rows_for_processing rows t =
     filter_loop (last_run_date t) (set (get_or (processed_emails_same_date t) [])) rows"

text \<open>
  \<open>finalize_tracking_after_run\<close>; \<open>today\<close> is what \<open>date.today()\<close> returns.
  \<open>sorted\<close> of a set of strings is the list of its elements in ascending order.
\<close>

definition finalize_tracking_after_run :: "tracking \<Rightarrow> string set \<Rightarrow> date \<Rightarrow> tracking" where
  "finalize_tracking_after_run t emails_processed_today today =
     t\<lparr> last_run_date := Some (isoformat today),
        processed_emails_same_date := Some (sorted_list_of_set emails_processed_today) \<rparr>"

section \<open>The selection rules of the incremental filter, as predicates on one row\<close>

definition row_date :: "row \<Rightarrow> date option" where
  "row_date r = to_date_obj (row_get r ''createdat'')"

text \<open>A \<open>date\<close> or \<open>datetime\<close> object is one that Python can build.\<close>

fun wf_val :: "pyval \<Rightarrow> bool" where
  "wf_val (PDate d) = valid_date d"
| "wf_val (PDateTime d t) = valid_date d"
| "wf_val v = True"

text \<open>
  The decision the loop body takes for one row, on the strings it compares:
  \<open>lrd\<close> is the stored watermark, \<open>processed\<close> the same-day set.
\<close>

definition keep_row :: "string option \<Rightarrow> string set \<Rightarrow> row \<Rightarrow> bool" where
  "keep_row lrd processed r =
     (case row_date r of
        None \<Rightarrow> False
      | Some rd \<Rightarrow>
          (case lrd of
             None \<Rightarrow> True
           | Some wm \<Rightarrow>
               isoformat rd > wm
               \<or> (isoformat rd = wm
                  \<and> (case row_email r of None \<Rightarrow> False
                                       | Some e \<Rightarrow> e \<noteq> [] \<and> e \<notin> processed))))"

text \<open>
  The rules as the specification words them, on dates: no watermark, every row with a
  date; a later date, included; the watermark's date, included if and only if the
  identity key is not in the same-day set; an earlier date or no date, excluded.
  A row without an identity key has no key in the set.
\<close>

definition eligible_as_stated :: "date option \<Rightarrow> string set \<Rightarrow> row \<Rightarrow> bool" where
  "eligible_as_stated wmark processed r =
     (case row_date r of
        None \<Rightarrow> False
      | Some rd \<Rightarrow>
          (case wmark of
             None \<Rightarrow> True
           | Some wd \<Rightarrow>
               date_less wd rd
               \<or> (rd = wd
                  \<and> (case row_email r of None \<Rightarrow> True | Some e \<Rightarrow> e \<notin> processed))))"

text \<open>
  The same rules with the guard of the source on the watermark's date: the row needs
  a non-empty identity key, and that key must not be in the same-day set.
\<close>

definition eligible :: "date option \<Rightarrow> string set \<Rightarrow> row \<Rightarrow> bool" where
  "eligible wmark processed r =
     (case row_date r of
        None \<Rightarrow> False
      | Some rd \<Rightarrow>
          (case wmark of
             None \<Rightarrow> True
           | Some wd \<Rightarrow>
               date_less wd rd
               \<or> (rd = wd
                  \<and> (case row_email r of None \<Rightarrow> False
                                       | Some e \<Rightarrow> e \<noteq> [] \<and> e \<notin> processed))))"

subsection \<open>Example data: the same-day scenario of the specification\<close>

definition ex_tracking :: tracking where
  "ex_tracking =
     \<lparr> last_run_date = Some ''2024-05-01'',
       processed_emails_same_date = Some [''a@x.com''],
       email_to_issue = Some [], flagged_requests = Some [] \<rparr>"

definition ex_row :: "string option \<Rightarrow> string \<Rightarrow> row" where
  "ex_row e created =
     \<lparr> emailaddress = e, email = None, Email = None,
       cols = [(''createdat'', PStr created)] \<rparr>"

section \<open>The form definition\<close>

text \<open>
  One entry of a question's choice list and one question of the form JSON. A field is
  \<open>None\<close> when its key is missing or holds \<open>null\<close>; labels and ids are JSON strings.
\<close>

record choice =
  ch_label :: "string option"
  ch_id :: "string option"

record question =
  qtype :: "string option"
  choices :: "choice list option"

text \<open>\<open>str(x)\<close> on a string or \<open>None\<close>.\<close>

definition str_of_opt :: "string option \<Rightarrow> string" where
  "str_of_opt x = (case x of None \<Rightarrow> ''None'' | Some s \<Rightarrow> s)"

section \<open>mappers.py\<close>

definition normalize_label :: "string option \<Rightarrow> string" where
  "normalize_label s = (case s of None \<Rightarrow> [] | Some x \<Rightarrow> filter py_isalnum (py_lower x))"

text \<open>\<open>[p.strip() for p in raw_value.split(';') if p.strip()]\<close>\<close>

definition handset_parts :: "string \<Rightarrow> string list" where
  "handset_parts raw_value = filter (\<lambda>p. p \<noteq> []) (map py_strip (py_split CHR '';'' raw_value))"

text \<open>
  The dictionary comprehension that builds \<open>label_map\<close> from
  \<open>questions.get('159', {}).get('choices') or []\<close>: a later choice with the same
  normalized label replaces the id of the earlier one.
\<close>

definition handset_choices :: "(string \<times> question) list \<Rightarrow> choice list" where
  "handset_choices questions =
     (case map_of questions ''159'' of None \<Rightarrow> [] | Some q \<Rightarrow> get_or (choices q) [])"

definition handset_label_map :: "choice list \<Rightarrow> (string \<times> string) list" where
  "handset_label_map chs =
     foldl (\<lambda>m ch. case ch_label ch of
                     None \<Rightarrow> m
                   | Some l \<Rightarrow> dict_set m (normalize_label (Some l)) (str_of_opt (ch_id ch)))
       [] chs"

text \<open>\<open>label_map.get(normalized) or '0'\<close>\<close>

definition handset_choice_id :: "(string \<times> string) list \<Rightarrow> string \<Rightarrow> string" where
  "handset_choice_id label_map p =
     (case map_of label_map (normalize_label (Some p)) of
        None \<Rightarrow> ''0''
      | Some nid \<Rightarrow> if nid = [] then ''0'' else nid)"

fun handsets_loop :: "(string \<times> string) list \<Rightarrow> string list \<Rightarrow> string list \<Rightarrow> string list" where
  "handsets_loop label_map seen [] = seen"
| "handsets_loop label_map seen (p # parts) =
     (let nid = handset_choice_id label_map p
      in handsets_loop label_map (if nid \<notin> set seen then seen @ [nid] else seen) parts)"

definition map_handsets_field_dynamic ::
    "string option \<Rightarrow> (string \<times> question) list \<Rightarrow> string list" where
  "map_handsets_field_dynamic raw_value questions =
     (case raw_value of
        None \<Rightarrow> []
      | Some raw \<Rightarrow>
          if raw = [] then []
          else handsets_loop (handset_label_map (handset_choices questions)) []
                 (handset_parts raw))"

text \<open>A list with every later repetition of an element removed.\<close>

fun first_seen :: "'a list \<Rightarrow> 'a list" where
  "first_seen [] = []"
| "first_seen (x # xs) = x # filter (\<lambda>y. y \<noteq> x) (first_seen xs)"

definition ex_questions :: "(string \<times> question) list" where
  "ex_questions =
     [(''159'', \<lparr> qtype = Some ''cm'',
                 choices = Some [\<lparr> ch_label = Some ''Cordless handset'', ch_id = Some ''10'' \<rparr>,
                                 \<lparr> ch_label = Some ''Mobile phone'', ch_id = Some ''11'' \<rparr>] \<rparr>)]"

text \<open>
  A form in which question 159 has a choice without label, a choice without id, a choice
  whose id is the empty string and two choices whose labels normalize to the same key,
  beside a question 160 that knows the label \<open>Fax\<close>.
\<close>

definition ex_handset_form :: "(string \<times> question) list" where
  "ex_handset_form =
     [(''160'', \<lparr> qtype = Some ''cm'',
                 choices = Some [\<lparr> ch_label = Some ''Fax'', ch_id = Some ''20'' \<rparr>] \<rparr>),
      (''159'', \<lparr> qtype = Some ''cm'',
                 choices = Some [\<lparr> ch_label = Some ''Cordless handset'', ch_id = Some ''10'' \<rparr>,
                                 \<lparr> ch_label = Some ''Mobile phone'', ch_id = Some ''11'' \<rparr>,
                                 \<lparr> ch_label = None, ch_id = Some ''12'' \<rparr>,
                                 \<lparr> ch_label = Some ''Head-Set 2'', ch_id = None \<rparr>,
                                 \<lparr> ch_label = Some ''Speaker'', ch_id = Some [] \<rparr>,
                                 \<lparr> ch_label = Some ''MOBILE  PHONE'', ch_id = Some ''14'' \<rparr>] \<rparr>)]"

section \<open>Errors, configuration and the text of a value\<close>

text \<open>The exceptions the modelled code can raise, each with what identifies it.\<close>

datatype py_error =
    KeyError string
  | AttributeError string
  | ValueError string
  | RuntimeError string
  | OSError
  | RequestException
  | HTTPError nat

text \<open>
  The module \<open>config\<close> holds the constants of a deployment; the names the pipeline
  imports from it are the fields of this record, and every statement below is about an
  arbitrary configuration. \<open>DB_TO_QID\<close> maps a column name to a question id (a string,
  as the keys of the form JSON are), in the order of the dictionary.
\<close>

record config =
  DB_TO_QID :: "(string \<times> string) list"
  SITE_DOMAIN :: string
  SERVICE_DESK_ID :: string
  REQUEST_TYPE_ID :: string
  CLOUD_ID :: string

text \<open>
  \<open>str(v)\<close>: a string is itself, \<open>None\<close> is \<open>None\<close>, a date is its ISO form. The text
  Python gives the other shapes (an integer, a timestamp, a list) is the parameter
  \<open>str_other\<close>.
\<close>

definition py_str :: "(pyval \<Rightarrow> string) \<Rightarrow> pyval \<Rightarrow> string" where
  "py_str str_other v =
     (case v of PNone \<Rightarrow> ''None'' | PStr s \<Rightarrow> s | PDate d \<Rightarrow> isoformat d | _ \<Rightarrow> str_other v)"

section \<open>transformer.py: \<open>build_form_answers\<close>\<close>

text \<open>One entry of the answers payload: \<open>{'choices': ids}\<close>, \<open>{'text': s}\<close>, \<open>{'date': s}\<close>.\<close>

datatype answer = Choices "string list" | Text string | DateAns string

text \<open>\<open>str(row.get('timeframe') or '').strip()\<close> and its normalized form.\<close>

definition timeframe_raw :: "(pyval \<Rightarrow> string) \<Rightarrow> row \<Rightarrow> string" where
  "timeframe_raw str_other r =
     py_strip (py_str str_other
       (if truthy (row_get r ''timeframe'') then row_get r ''timeframe'' else PStr []))"

definition timeframe_norm :: "(pyval \<Rightarrow> string) \<Rightarrow> row \<Rightarrow> string" where
  "timeframe_norm str_other r = filter py_isalnum (py_lower (timeframe_raw str_other r))"

text \<open>\<open>tracking.setdefault('flagged_requests', {})[email] = reason\<close>\<close>

definition flag_request :: "tracking \<Rightarrow> string option \<Rightarrow> string \<Rightarrow> tracking" where
  "flag_request t e reason =
     t\<lparr> flagged_requests := Some (dict_set (get_or (flagged_requests t) []) e reason) \<rparr>"

text \<open>
  The fuzzy fallback: the first entry of the choice map, in its order, whose key
  contains the normalized label or is contained in it.
\<close>

fun first_substring_hit :: "string \<Rightarrow> (string \<times> string) list \<Rightarrow> string option" where
  "first_substring_hit norm_label [] = None"
| "first_substring_hit norm_label ((k_norm, k_id) # rest) =
     (if py_in_str norm_label k_norm \<or> py_in_str k_norm norm_label then Some k_id
      else first_substring_hit norm_label rest)"

text \<open>The loop over \<open>labels\<close> that fills \<open>choice_ids\<close>.\<close>

fun match_labels :: "(string \<times> string) list \<Rightarrow> string list \<Rightarrow> string list \<Rightarrow> string list" where
  "match_labels q_choice_map [] choice_ids = choice_ids"
| "match_labels q_choice_map (lbl # labels) choice_ids =
     (let norm_label = filter py_isalnum (py_lower lbl);
          cid = map_of q_choice_map norm_label
      in if str_truthy cid then match_labels q_choice_map labels (choice_ids @ [str_of_opt cid])
         else (case first_substring_hit norm_label q_choice_map of
                 Some k_id \<Rightarrow> match_labels q_choice_map labels (choice_ids @ [k_id])
               | None \<Rightarrow> match_labels q_choice_map labels choice_ids))"

text \<open>The labels of a choice value: the truthy elements of a list, or the comma-separated parts.\<close>

definition choice_labels :: "(pyval \<Rightarrow> string) \<Rightarrow> pyval \<Rightarrow> string list" where
  "choice_labels str_other v =
     (case v of
        PList xs \<Rightarrow> map (\<lambda>x. py_strip (py_str str_other x)) (filter truthy xs)
      | _ \<Rightarrow> filter (\<lambda>s. s \<noteq> []) (map py_strip (py_split CHR '','' (py_str str_other v))))"

text \<open>\<open>questions.get(qid, {}).get('type', '')\<close>\<close>

definition question_type :: "(string \<times> question) list \<Rightarrow> string \<Rightarrow> string" where
  "question_type questions qid =
     (case map_of questions qid of None \<Rightarrow> [] | Some qdef \<Rightarrow> get_or (qtype qdef) [])"

text \<open>One pass of the loop over \<open>DB_TO_QID.items()\<close>.\<close>

definition map_field ::
    "(pyval \<Rightarrow> string) \<Rightarrow> row \<Rightarrow> (string \<times> question) list \<Rightarrow> (string \<times> (string \<times> string) list) list
      \<Rightarrow> (string \<times> answer) list \<Rightarrow> string \<times> string \<Rightarrow> (string \<times> answer) list" where
  "map_field str_other r questions choice_map answers item =
     (let db_col = fst item; qid = snd item
      in if db_col = ''timeframe'' \<or> db_col = ''handsetsandheadsets'' then answers
         else if row_get r db_col = PNone then answers
         else
           (let v = row_get r db_col; qt = question_type questions qid
            in if qt = ''ts'' \<or> qt = ''te'' \<or> qt = ''pg'' \<or> qt = ''text''
                 then dict_set answers qid (Text (py_str str_other v))
               else if qt = ''da''
                 then dict_set answers qid
                        (DateAns (case to_date_obj v of
                                    Some d \<Rightarrow> isoformat d
                                  | None \<Rightarrow> py_str str_other v))
               else if qt = ''cs'' \<or> qt = ''cm''
                 then (let choice_ids = match_labels (get_or (map_of choice_map qid) [])
                                          (choice_labels str_other v) []
                       in if choice_ids \<noteq> [] then dict_set answers qid (Choices choice_ids)
                          else answers)
               else dict_set answers qid (Text (py_str str_other v))))"

text \<open>
  \<open>build_form_answers\<close> returns the answers (or \<open>None\<close>) and the tracking state, which
  it may have flagged. \<open>DB_TO_QID['timeframe']\<close> raises \<open>KeyError\<close> for a missing key.
  For the timeframe \<open>permanent\<close> the source sets its local \<open>approx_end\<close> to \<open>None\<close>
  and never reads it again, so that branch is the common continuation.
\<close>

definition build_form_answers ::
    "config \<Rightarrow> (pyval \<Rightarrow> string) \<Rightarrow> row \<Rightarrow> (string \<times> question) list
      \<Rightarrow> (string \<times> (string \<times> string) list) list \<Rightarrow> tracking
      \<Rightarrow> py_error + ((string \<times> answer) list option \<times> tracking)" where
  "build_form_answers cfg str_other r questions choice_map t =
     (case map_of (DB_TO_QID cfg) ''timeframe'' of
        None \<Rightarrow> Inl (KeyError ''timeframe'')
      | Some timeframe_qid \<Rightarrow>
          (let em = row_email r;
               tf_raw = timeframe_raw str_other r;
               tf_norm = timeframe_norm str_other r;
               timeframe_choice_id =
                 map_of (get_or (map_of choice_map timeframe_qid) []) tf_norm
           in if \<not> str_truthy timeframe_choice_id
                then Inr (None, flag_request t em (''Invalid timeframe: '' @ tf_raw))
              else
                (let answers = [(timeframe_qid, Choices [str_of_opt timeframe_choice_id])];
                     date_needed = to_date_obj (row_get r ''dateneededby'');
                     approx_end = to_date_obj (row_get r ''approximateendingdate'');
                     mapped = Inr (Some (foldl (map_field str_other r questions choice_map)
                                           answers (DB_TO_QID cfg)), t)
                 in if tf_norm = ''temporary'' then
                      (case (date_needed, approx_end) of
                         (Some dn, Some ae) \<Rightarrow>
                           if \<not> date_less dn ae
                           then Inr (None, flag_request t em
                                             ''approximateendingdate <= dateneededby'')
                           else mapped
                       | _ \<Rightarrow>
                           Inr (None, flag_request t em
                                        ''Missing date(s) for temporary request''))
                    else mapped)))"

subsection \<open>The choice matching as the specification words it\<close>

text \<open>
  A token is normalized; an exact hit in the table wins; otherwise the first entry of the
  table whose key contains the token, or is contained in it, as a contiguous run; a
  token that matches nothing yields nothing.
\<close>

definition token_choice_spec :: "(string \<times> string) list \<Rightarrow> string \<Rightarrow> string option" where
  "token_choice_spec m tok =
     (let n = filter py_isalnum (py_lower tok)
      in case map_of m n of
           Some c \<Rightarrow> Some c
         | None \<Rightarrow> map_option snd (find (\<lambda>kv. sublist n (fst kv) \<or> sublist (fst kv) n) m))"

definition choice_ids_spec :: "(string \<times> string) list \<Rightarrow> string list \<Rightarrow> string list" where
  "choice_ids_spec m toks = List.map_filter (token_choice_spec m) toks"

subsection \<open>The choice matching with the empty choice id taken into account\<close>

text \<open>
  A token is normalized; an exact hit in the table wins when its choice id is not the
  empty string; otherwise (no exact hit, or an exact hit with an empty id) the first
  entry of the table whose key contains the token, or is contained in it, as a
  contiguous run, whatever its id; a token that matches nothing yields nothing.
\<close>

definition token_choice_amended :: "(string \<times> string) list \<Rightarrow> string \<Rightarrow> string option" where
  "token_choice_amended m tok =
     (let n = filter py_isalnum (py_lower tok);
          fuzzy = map_option snd (find (\<lambda>kv. sublist n (fst kv) \<or> sublist (fst kv) n) m)
      in case map_of m n of
           Some c \<Rightarrow> if c \<noteq> [] then Some c else fuzzy
         | None \<Rightarrow> fuzzy)"

definition choice_ids_amended :: "(string \<times> string) list \<Rightarrow> string list \<Rightarrow> string list" where
  "choice_ids_amended m toks = List.map_filter (token_choice_amended m) toks"

subsection \<open>Example data for the form answers\<close>

definition ex_config :: config where
  "ex_config =
     \<lparr> DB_TO_QID = [(''timeframe'', ''10''), (''dateneededby'', ''11''),
                     (''approximateendingdate'', ''12''), (''phonetype'', ''13''),
                     (''handsetsandheadsets'', ''159'')],
       SITE_DOMAIN = ''example.atlassian.net'', SERVICE_DESK_ID = ''1'',
       REQUEST_TYPE_ID = ''2'', CLOUD_ID = ''c-1'' \<rparr>"

definition ex_choice_map :: "(string \<times> (string \<times> string) list) list" where
  "ex_choice_map =
     [(''10'', [(''temporary'', ''1''), (''permanent'', ''2'')]),
      (''13'', [(''deskphone'', ''31''), (''softphone'', ''32'')])]"

definition ex_form_questions :: "(string \<times> question) list" where
  "ex_form_questions =
     [(''10'', \<lparr> qtype = Some ''cs'', choices = None \<rparr>),
      (''11'', \<lparr> qtype = Some ''da'', choices = None \<rparr>),
      (''12'', \<lparr> qtype = Some ''da'', choices = None \<rparr>),
      (''13'', \<lparr> qtype = Some ''cm'', choices = None \<rparr>)]"

definition ex_request :: "string \<Rightarrow> string \<Rightarrow> string \<Rightarrow> row" where
  "ex_request tf needed ending =
     \<lparr> emailaddress = Some ''a@x.com'', email = None, Email = None,
       cols = [(''createdat'', PStr ''2024-05-01''), (''timeframe'', PStr tf),
               (''dateneededby'', PStr needed), (''approximateendingdate'', PStr ending)] \<rparr>"

definition empty_tracking :: tracking where
  "empty_tracking =
     \<lparr> last_run_date = None, processed_emails_same_date = Some [],
       email_to_issue = Some [], flagged_requests = Some [] \<rparr>"


section \<open>state\_manager.py\<close>

definition DEFAULT_STATE :: "(string \<times> json) list" where
  "DEFAULT_STATE =
     [(''last_run_date'', JNull),
      (''processed_emails_same_date'', JArr []),
      (''email_to_issue'', JObj []),
      (''flagged_requests'', JObj [])]"

text \<open>
  The condition of the backing file: it does not exist; it cannot be opened or read;
  or it is read, and \<open>json.load\<close> either fails on its content or returns a value.
\<close>

datatype file_cond = Missing | Unreadable | Content "json option"

text \<open>\<open>data.setdefault(k, v)\<close>: a missing key is added at the end, a present one is kept.\<close>

definition setdefault :: "(string \<times> json) list \<Rightarrow> string \<Rightarrow> json \<Rightarrow> (string \<times> json) list" where
  "setdefault data k v = (case map_of data k of None \<Rightarrow> data @ [(k, v)] | Some x \<Rightarrow> data)"

text \<open>
  The body of the \<open>try\<close> block. Opening or parsing can raise; \<open>setdefault\<close> on a value
  that is not a dictionary raises \<open>AttributeError\<close>. The default of a key is a copy of
  the entry of \<open>DEFAULT_STATE\<close>, which is the same value.
\<close>

definition read_tracking_try :: "file_cond \<Rightarrow> py_error + (string \<times> json) list" where
  "read_tracking_try f =
     (case f of
        Missing \<Rightarrow> Inr DEFAULT_STATE
      | Unreadable \<Rightarrow> Inl OSError
      | Content None \<Rightarrow> Inl (ValueError ''not JSON'')
      | Content (Some (JObj data)) \<Rightarrow>
          Inr (foldl (\<lambda>d kv. setdefault d (fst kv) (snd kv)) data DEFAULT_STATE)
      | Content (Some other) \<Rightarrow> Inl (AttributeError ''setdefault''))"

text \<open>\<open>read_tracking\<close>: the \<open>except Exception\<close> handler returns the default state.\<close>

definition read_tracking :: "file_cond \<Rightarrow> py_error + (string \<times> json) list" where
  "read_tracking f =
     (case read_tracking_try f of Inl e \<Rightarrow> Inr DEFAULT_STATE | Inr data \<Rightarrow> Inr data)"

section \<open>jira\_helpers.py: \<open>fetch_form_definition_cloud\<close>\<close>

text \<open>
  What one \<open>requests.get\<close> does: it raises a \<open>RequestException\<close>, or it returns a
  response with a status code and a body that \<open>resp.json()\<close> parses or not.
\<close>

datatype 'j http_reply = TransportError | Reply nat "'j option"

text \<open>
  The retry loop over \<open>range(1, 4)\<close>. \<open>transport n\<close> is what the request number \<open>n\<close> of
  this call does (counted from 0); the result comes with the number of requests made.
\<close>

fun fetch_loop :: "(nat \<Rightarrow> 'j http_reply) \<Rightarrow> nat list \<Rightarrow> nat \<Rightarrow> (py_error + 'j) \<times> nat" where
  "fetch_loop transport [] calls =
     (Inl (RuntimeError ''Unable to fetch Jira form JSON after retries''), calls)"
| "fetch_loop transport (attempt # attempts) calls =
     (case transport calls of
        TransportError \<Rightarrow> fetch_loop transport attempts (Suc calls)
      | Reply status body \<Rightarrow>
          if status = 200 \<or> status = 201 then
            (case body of
               Some j \<Rightarrow> (Inr j, Suc calls)
             | None \<Rightarrow> (Inl (ValueError ''Response from Jira was not JSON''), Suc calls))
          else fetch_loop transport attempts (Suc calls))"

definition fetch_form_definition_cloud ::
    "string \<Rightarrow> string \<Rightarrow> string \<Rightarrow> (nat \<Rightarrow> 'j http_reply) \<Rightarrow> (py_error + 'j) \<times> nat" where
  "fetch_form_definition_cloud cloud_id service_desk_id request_type_id transport =
     (if cloud_id = [] \<or> service_desk_id = [] \<or> request_type_id = []
      then (Inl (ValueError
                  ''cloud_id, service_desk_id, and request_type_id must not be empty''), 0)
      else fetch_loop transport [1, 2, 3] 0)"

text \<open>An attempt fails when the transport raises or the status is neither 200 nor 201.\<close>

definition attempt_failed :: "'j http_reply \<Rightarrow> bool" where
  "attempt_failed rep =
     (case rep of TransportError \<Rightarrow> True | Reply status body \<Rightarrow> status \<noteq> 200 \<and> status \<noteq> 201)"

section \<open>jira\_helpers.py: \<open>create_request_on_jira\<close>\<close>

text \<open>The arguments of one call of \<open>create_request_on_jira\<close>.\<close>

record jira_request =
  req_site_domain :: string
  req_service_desk_id :: string
  req_request_type_id :: string
  req_summary :: string
  req_description :: string
  req_form_answers :: "(string \<times> answer) list"

text \<open>
  The single \<open>requests.post\<close>, given what the ticket system does with it: a status
  other than 200 and 201 makes \<open>raise_for_status\<close> raise when it is a 4xx or 5xx code,
  and \<open>resp.json()\<close> raises for a body that is not JSON.
\<close>

definition create_request_on_jira :: "json http_reply \<Rightarrow> py_error + json" where
  "create_request_on_jira rep =
     (case rep of
        TransportError \<Rightarrow> Inl RequestException
      | Reply status body \<Rightarrow>
          if status \<noteq> 200 \<and> status \<noteq> 201 \<and> 400 \<le> status \<and> status < 600
          then Inl (HTTPError status)
          else (case body of
                  None \<Rightarrow> Inl (ValueError ''not JSON'')
                | Some resp \<Rightarrow> Inr resp))"

section \<open>processor.py: \<open>process_row\<close>\<close>

fun json_truthy :: "json \<Rightarrow> bool" where
  "json_truthy JNull = False"
| "json_truthy (JBool b) = b"
| "json_truthy (JNum n) = (n \<noteq> 0)"
| "json_truthy (JStr s) = (s \<noteq> [])"
| "json_truthy (JArr xs) = (xs \<noteq> [])"
| "json_truthy (JObj d) = (d \<noteq> [])"

text \<open>\<open>d.get(k)\<close> on a JSON object.\<close>

definition json_get :: "(string \<times> json) list \<Rightarrow> string \<Rightarrow> json" where
  "json_get d k = (case map_of d k of None \<Rightarrow> JNull | Some v \<Rightarrow> v)"

text \<open>
  The issue reference taken from the response:
  \<open>resp.get('issueKey') or (resp.get('request') and resp['request'].get('issueKey')) or
  resp.get('key') or resp.get('requestNumber') or str(resp)[:200]\<close>.
  \<open>get\<close> on a value that is not an object raises \<open>AttributeError\<close>; \<open>json_str\<close> is
  \<open>str\<close> on the response.
\<close>

definition extract_issue_key :: "(json \<Rightarrow> string) \<Rightarrow> json \<Rightarrow> py_error + json" where
  "extract_issue_key json_str resp =
     (case resp of
        JObj d \<Rightarrow>
          if json_truthy (json_get d ''issueKey'') then Inr (json_get d ''issueKey'')
          else
            (case (if json_truthy (json_get d ''request'')
                   then (case json_get d ''request'' of
                           JObj rd \<Rightarrow> Inr (json_get rd ''issueKey'')
                         | _ \<Rightarrow> Inl (AttributeError ''get''))
                   else Inr (json_get d ''request'')) of
               Inl e \<Rightarrow> Inl e
             | Inr v \<Rightarrow>
                 if json_truthy v then Inr v
                 else if json_truthy (json_get d ''key'') then Inr (json_get d ''key'')
                 else if json_truthy (json_get d ''requestNumber'')
                   then Inr (json_get d ''requestNumber'')
                 else Inr (JStr (take 200 (json_str resp))))
      | _ \<Rightarrow> Inl (AttributeError ''get''))"

text \<open>\<open>"\n".join(parts)\<close>\<close>

fun join_lines :: "string list \<Rightarrow> string" where
  "join_lines [] = []"
| "join_lines [p] = p"
| "join_lines (p # q # ps) = p @ [CHR 0x0A] @ join_lines (q # ps)"

definition summary_of :: "(pyval \<Rightarrow> string) \<Rightarrow> row \<Rightarrow> string \<Rightarrow> string" where
  "summary_of str_other r e =
     ''Phone equipment request - ''
       @ (if truthy (row_get r ''newusername'') then py_str str_other (row_get r ''newusername'')
          else e)"

definition description_of :: "(pyval \<Rightarrow> string) \<Rightarrow> row \<Rightarrow> string" where
  "description_of str_other r =
     (let description_parts =
            map (\<lambda>col. col @ '': '' @ py_str str_other (row_get r col))
              (filter (\<lambda>col. truthy (row_get r col))
                 [''newusername'', ''phonenumber'', ''departmentname'', ''job'',
                  ''costcenter'', ''comments'']);
          joined = join_lines description_parts
      in if joined = [] then ''Phone equipment request'' else joined)"

definition created_iso_of :: "row \<Rightarrow> string option" where
  "created_iso_of r = map_option isoformat (to_date_obj (row_get r ''createdat''))"

text \<open>
  The special case of the handset column: the answers with the handset choices merged
  in. \<open>raw_value.split\<close> raises \<open>AttributeError\<close> on a truthy value that is not a
  string.
\<close>

definition merge_handsets ::
    "config \<Rightarrow> row \<Rightarrow> (string \<times> question) list \<Rightarrow> (string \<times> answer) list
      \<Rightarrow> py_error + (string \<times> answer) list" where
  "merge_handsets cfg r questions form_answers =
     (case map_of (DB_TO_QID cfg) ''handsetsandheadsets'' of
        None \<Rightarrow> Inr form_answers
      | Some handsets_qid \<Rightarrow>
          if handsets_qid = [] then Inr form_answers
          else if \<not> truthy (row_get r ''handsetsandheadsets'') then Inr form_answers
          else (case row_get r ''handsetsandheadsets'' of
                  PStr raw_value \<Rightarrow>
                    (let mapped_choice_ids = map_handsets_field_dynamic (Some raw_value) questions
                     in if mapped_choice_ids \<noteq> []
                        then Inr (dict_set form_answers handsets_qid (Choices mapped_choice_ids))
                        else Inr form_answers)
                | _ \<Rightarrow> Inl (AttributeError ''split'')))"

text \<open>
  \<open>process_row\<close> returns the tuple of the source, or the exception it lets through,
  together with the calls of \<open>create_request_on_jira\<close> it made. \<open>jira\<close> is what the
  ticket system does with a request.
\<close>

definition process_row ::
    "config \<Rightarrow> (pyval \<Rightarrow> string) \<Rightarrow> (json \<Rightarrow> string) \<Rightarrow> (jira_request \<Rightarrow> json http_reply)
      \<Rightarrow> row \<Rightarrow> tracking \<Rightarrow> (string \<times> question) list \<Rightarrow> (string \<times> (string \<times> string) list) list
      \<Rightarrow> (py_error + (tracking \<times> bool \<times> string option \<times> string option)) \<times> jira_request list" where
  "process_row cfg str_other json_str jira r t questions choice_map =
     (case row_email r of
        None \<Rightarrow> (Inr (t, False, None, None), [])
      | Some e \<Rightarrow>
          if e = [] then (Inr (t, False, None, None), [])
          else if e \<in> fst ` set (get_or (email_to_issue t) [])
            then (Inr (t, False, None, Some e), [])
          else
            (case build_form_answers cfg str_other r questions choice_map t of
               Inl err \<Rightarrow> (Inl err, [])
             | Inr (None, t') \<Rightarrow> (Inr (t', False, created_iso_of r, Some e), [])
             | Inr (Some form_answers, t') \<Rightarrow>
                 (case merge_handsets cfg r questions form_answers of
                    Inl err \<Rightarrow> (Inl err, [])
                  | Inr answers \<Rightarrow>
                      (let req = \<lparr> req_site_domain = SITE_DOMAIN cfg,
                                   req_service_desk_id = SERVICE_DESK_ID cfg,
                                   req_request_type_id = REQUEST_TYPE_ID cfg,
                                   req_summary = summary_of str_other r e,
                                   req_description = description_of str_other r,
                                   req_form_answers = answers \<rparr>
                       in case create_request_on_jira (jira req) of
                            Inl err \<Rightarrow> (Inr (t', False, created_iso_of r, Some e), [req])
                          | Inr resp \<Rightarrow>
                              (case extract_issue_key json_str resp of
                                 Inl err \<Rightarrow> (Inr (t', False, created_iso_of r, Some e), [req])
                               | Inr issue_key \<Rightarrow>
                                   (Inr (t'\<lparr> email_to_issue :=
                                              Some (dict_set (get_or (email_to_issue t') [])
                                                      e issue_key) \<rparr>,
                                         True, created_iso_of r, Some e), [req]))))))"

section \<open>form\_mapping.py\<close>

text \<open>The part of the form JSON the pipeline reads: \<open>design\<close> and, in it, \<open>questions\<close>.\<close>

record form_design =
  design_questions :: "(string \<times> question) list option"

record form_json =
  design :: "form_design option"

text \<open>\<open>form_json.get('design', {}).get('questions', {}) or {}\<close>\<close>

definition extract_questions_from_form :: "form_json \<Rightarrow> (string \<times> question) list" where
  "extract_questions_from_form fj =
     (case design fj of None \<Rightarrow> [] | Some d \<Rightarrow> get_or (design_questions d) [])"

text \<open>The inner loop of \<open>build_choice_label_to_id_map\<close> over the choices of one question.\<close>

definition choice_inner_map :: "choice list \<Rightarrow> (string \<times> string) list" where
  "choice_inner_map chs =
     foldl (\<lambda>inner ch.
              case (ch_label ch, ch_id ch) of
                (Some lab, Some cid) \<Rightarrow>
                  if lab \<noteq> [] then dict_set inner (filter py_isalnum (py_lower lab)) cid
                  else inner
              | _ \<Rightarrow> inner)
       [] chs"

definition build_choice_label_to_id_map ::
    "(string \<times> question) list \<Rightarrow> (string \<times> (string \<times> string) list) list" where
  "build_choice_label_to_id_map questions =
     foldl (\<lambda>m item.
              let inner = choice_inner_map (get_or (choices (snd item)) [])
              in if inner \<noteq> [] then dict_set m (fst item) inner else m)
       [] questions"

subsection \<open>Example data: a form with a choice whose id is the empty string\<close>



section \<open>main.py\<close>

text \<open>
  What surrounds one run: the answers of the form endpoint to successive requests, the
  rows the database returns for a start date, what the ticket system does with a
  request, and the calendar. \<open>main\<close> reads \<open>date.today()\<close> while it handles a row
  (at most once per row) and \<open>finalize_tracking_after_run\<close> reads it again:
  \<open>today_at_row w n\<close> is the date at the time row number \<open>n\<close> of the selection
  (counted from 0) is handled, \<open>today_at_end w\<close> the date at finalization.
\<close>

record world =
  form_transport :: "nat \<Rightarrow> form_json http_reply"
  fetch_rows_on_or_after :: "string option \<Rightarrow> row list"
  jira :: "jira_request \<Rightarrow> json http_reply"
  today_at_row :: "nat \<Rightarrow> date"
  today_at_end :: date

text \<open>
  The state of the row loop: the tracking dictionary, \<open>emails_processed_today\<close>, the
  states handed to \<open>write_tracking\<close> in order, the calls of
  \<open>create_request_on_jira\<close>, each with the identity key of the row that caused it,
  and the number of rows handled so far.
\<close>

record run_state =
  rs_tracking :: tracking
  rs_emails :: "string set"
  rs_written :: "tracking list"
  rs_submitted :: "(string option \<times> jira_request) list"
  rs_row :: nat

text \<open>
  The body of the loop over \<open>rows_to_process\<close>. An exception of \<open>process_row\<close> is
  caught and logged: nothing is written for that row.
\<close>

definition loop_step ::
    "config \<Rightarrow> (pyval \<Rightarrow> string) \<Rightarrow> (json \<Rightarrow> string) \<Rightarrow> world \<Rightarrow> (string \<times> question) list
      \<Rightarrow> (string \<times> (string \<times> string) list) list \<Rightarrow> run_state \<Rightarrow> row \<Rightarrow> run_state" where
  "loop_step cfg str_other json_str w questions choice_map s r =
     (case process_row cfg str_other json_str (jira w) r (rs_tracking s) questions choice_map of
        (Inl err, calls) \<Rightarrow>
          s\<lparr> rs_submitted := rs_submitted s @ map (Pair (row_email r)) calls,
             rs_row := Suc (rs_row s) \<rparr>
      | (Inr (t', processed, row_date_str, em), calls) \<Rightarrow>
          s\<lparr> rs_tracking := t',
             rs_written := rs_written s @ [t'],
             rs_emails :=
               (if processed \<and> str_truthy row_date_str
                   \<and> row_date_str = Some (isoformat (today_at_row w (rs_row s)))
                   \<and> str_truthy em
                then insert (str_of_opt em) (rs_emails s) else rs_emails s),
             rs_submitted := rs_submitted s @ map (Pair (row_email r)) calls,
             rs_row := Suc (rs_row s) \<rparr>)"

definition run_rows ::
    "config \<Rightarrow> (pyval \<Rightarrow> string) \<Rightarrow> (json \<Rightarrow> string) \<Rightarrow> world \<Rightarrow> (string \<times> question) list
      \<Rightarrow> (string \<times> (string \<times> string) list) list \<Rightarrow> run_state \<Rightarrow> row list \<Rightarrow> run_state" where
  "run_rows cfg str_other json_str w questions choice_map s rows =
     foldl (loop_step cfg str_other json_str w questions choice_map) s rows"

text \<open>
  \<open>main\<close>, from the tracking state that \<open>read_tracking\<close> returned. A failed fetch of
  the form definition propagates. With no row to process, \<open>main\<close> returns at once.
\<close>

definition main ::
    "config \<Rightarrow> (pyval \<Rightarrow> string) \<Rightarrow> (json \<Rightarrow> string) \<Rightarrow> world \<Rightarrow> tracking
      \<Rightarrow> py_error + run_state" where
  "main cfg str_other json_str w tracking0 =
     (case fst (fetch_form_definition_cloud (CLOUD_ID cfg) (SERVICE_DESK_ID cfg)
                  (REQUEST_TYPE_ID cfg) (form_transport w)) of
        Inl err \<Rightarrow> Inl err
      | Inr fj \<Rightarrow>
          (let questions = extract_questions_from_form fj;
               choice_map = build_choice_label_to_id_map questions;
               rows = fetch_rows_on_or_after w (last_run_date tracking0);
               rows_to_process = filter_rows_for_processing rows tracking0;
               start = \<lparr> rs_tracking = tracking0, rs_emails = {}, rs_written = [],
                         rs_submitted = [], rs_row = 0 \<rparr>
           in if rows_to_process = [] then Inr start
              else
                (let s = run_rows cfg str_other json_str w questions choice_map start
                           rows_to_process;
                     finalized = finalize_tracking_after_run (rs_tracking s) (rs_emails s)
                                   (today_at_end w)
                 in Inr (s\<lparr> rs_tracking := finalized,
                            rs_written := rs_written s @ [finalized] \<rparr>))))"

subsection \<open>Example data for a run\<close>

definition ex_form :: form_json where
  "ex_form =
     \<lparr> design = Some \<lparr> design_questions = Some
         [(''10'', \<lparr> qtype = Some ''cs'',
                     choices = Some [\<lparr> ch_label = Some ''Temporary'', ch_id = Some ''1'' \<rparr>,
                                     \<lparr> ch_label = Some ''Permanent'', ch_id = Some ''2'' \<rparr>] \<rparr>)] \<rparr> \<rparr>"

definition ex_world :: "row list \<Rightarrow> world" where
  "ex_world rows =
     \<lparr> form_transport = (\<lambda>n. Reply 200 (Some ex_form)),
       fetch_rows_on_or_after = (\<lambda>start. rows),
       jira = (\<lambda>req. Reply 201 (Some (JObj [(''issueKey'', JStr ''K-1'')]))),
       today_at_row = (\<lambda>n. Date 2024 5 2),
       today_at_end = Date 2024 5 2 \<rparr>"

text \<open>The same surroundings for a run that ends after midnight.\<close>

definition ex_world_late :: "row list \<Rightarrow> world" where
  "ex_world_late rows = (ex_world rows)\<lparr> today_at_end := Date 2024 5 3 \<rparr>"

definition ex_run_row :: "string \<Rightarrow> string \<Rightarrow> row" where
  "ex_run_row e created =
     \<lparr> emailaddress = None, email = Some e, Email = None,
       cols = [(''createdat'', PStr created), (''timeframe'', PStr ''Permanent'')] \<rparr>"


section \<open>Facts about the string form of dates\<close>

lemma digit_char_less_iff: "(digit_char a < digit_char b) = (a mod 10 < b mod 10)"
  by (simp add: digit_char_def less_char_def)

lemma digit_char_eq_iff: "(digit_char a = digit_char b) = (a mod 10 = b mod 10)"
proof -
  have "(digit_char a = digit_char b)
      = ((of_char (digit_char a) :: nat) = of_char (digit_char b))"
    by simp
  also have "\<dots> = (a mod 10 = b mod 10)"
    by (simp add: digit_char_def)
  finally show ?thesis .
qed

lemma nat_eq_div_mod:
  fixes a b k :: nat
  shows "(a = b) = (a div k = b div k \<and> a mod k = b mod k)"
  by (metis div_mult_mod_eq)

lemma nat_less_div_mod:
  fixes a b k :: nat
  assumes "0 < k"
  shows "(a < b) = (a div k < b div k \<or> (a div k = b div k \<and> a mod k < b mod k))"
proof (cases "a div k = b div k")
  case True
  have "a = k * (a div k) + a mod k"
    by simp
  moreover have "b = k * (a div k) + b mod k"
    by (simp add: True)
  ultimately have "(a < b) = (a mod k < b mod k)"
    by (metis nat_add_left_cancel_less)
  with True show ?thesis by simp
next
  case False
  show ?thesis
  proof (cases "a div k < b div k")
    case True
    then have "a < b"
      by (metis div_le_mono not_le)
    with True show ?thesis by simp
  next
    case F2: False
    with False have "b div k < a div k" by simp
    then have "b < a"
      by (metis div_le_mono not_le)
    with False F2 show ?thesis by simp
  qed
qed

lemma pad2_less_iff:
  assumes "m < 100" "n < 100"
  shows "(pad2 m < pad2 n) = (m < n)"
proof -
  have d: "m div 10 mod 10 = m div 10" "n div 10 mod 10 = n div 10"
    using assms by simp_all
  show ?thesis
    unfolding pad2_def
    by (simp add: digit_char_less_iff digit_char_eq_iff d nat_less_div_mod [of 10 m n])
qed

lemma pad2_eq_iff:
  assumes "m < 100" "n < 100"
  shows "(pad2 m = pad2 n) = (m = n)"
proof -
  have d: "m div 10 mod 10 = m div 10" "n div 10 mod 10 = n div 10"
    using assms by simp_all
  show ?thesis
    unfolding pad2_def
    by (simp add: digit_char_eq_iff d nat_eq_div_mod [of m n 10])
qed

lemma pad4_digits:
  fixes m :: nat
  assumes "m < 10000"
  shows "m div 1000 mod 10 = m div 1000"
  using assms by simp

lemma div_100: "(m::nat) div 10 div 10 = m div 100"
  using div_mult2_eq [of m 10 10] by simp

lemma div_1000: "(m::nat) div 100 div 10 = m div 1000"
  using div_mult2_eq [of m 100 10] by simp

lemma pad4_eq_iff:
  assumes "m < 10000" "n < 10000"
  shows "(pad4 m = pad4 n) = (m = n)"
proof -
  have e1: "(m = n) = (m div 10 = n div 10 \<and> m mod 10 = n mod 10)"
    by (rule nat_eq_div_mod)
  have e2: "(m div 10 = n div 10)
      = (m div 100 = n div 100 \<and> m div 10 mod 10 = n div 10 mod 10)"
    using nat_eq_div_mod [of "m div 10" "n div 10" 10] by (simp add: div_100 div_1000)
  have e3: "(m div 100 = n div 100)
      = (m div 1000 = n div 1000 \<and> m div 100 mod 10 = n div 100 mod 10)"
    using nat_eq_div_mod [of "m div 100" "n div 100" 10] by (simp add: div_100 div_1000)
  have "(pad4 m = pad4 n) = (m div 1000 = n div 1000 \<and> m div 100 mod 10 = n div 100 mod 10
      \<and> m div 10 mod 10 = n div 10 mod 10 \<and> m mod 10 = n mod 10)"
    unfolding pad4_def by (simp add: digit_char_eq_iff pad4_digits assms)
  also have "\<dots> = (m = n)"
    using e1 e2 e3 by blast
  finally show ?thesis .
qed

lemma pad4_less_iff:
  assumes "m < 10000" "n < 10000"
  shows "(pad4 m < pad4 n) = (m < n)"
proof -
  have l1: "(m < n) = (m div 10 < n div 10 \<or> (m div 10 = n div 10 \<and> m mod 10 < n mod 10))"
    by (rule nat_less_div_mod) simp
  have l2: "(m div 10 < n div 10)
      = (m div 100 < n div 100
         \<or> (m div 100 = n div 100 \<and> m div 10 mod 10 < n div 10 mod 10))"
    using nat_less_div_mod [of 10 "m div 10" "n div 10"] by (simp add: div_100 div_1000)
  have l3: "(m div 100 < n div 100)
      = (m div 1000 < n div 1000
         \<or> (m div 1000 = n div 1000 \<and> m div 100 mod 10 < n div 100 mod 10))"
    using nat_less_div_mod [of 10 "m div 100" "n div 100"] by (simp add: div_100 div_1000)
  have e2: "(m div 10 = n div 10)
      = (m div 100 = n div 100 \<and> m div 10 mod 10 = n div 10 mod 10)"
    using nat_eq_div_mod [of "m div 10" "n div 10" 10] by (simp add: div_100 div_1000)
  have e3: "(m div 100 = n div 100)
      = (m div 1000 = n div 1000 \<and> m div 100 mod 10 = n div 100 mod 10)"
    using nat_eq_div_mod [of "m div 100" "n div 100" 10] by (simp add: div_100 div_1000)
  have "(pad4 m < pad4 n) = (m div 1000 < n div 1000 \<or> (m div 1000 = n div 1000 \<and>
      (m div 100 mod 10 < n div 100 mod 10 \<or> (m div 100 mod 10 = n div 100 mod 10 \<and>
      (m div 10 mod 10 < n div 10 mod 10
        \<or> (m div 10 mod 10 = n div 10 mod 10 \<and> m mod 10 < n mod 10))))))"
    unfolding pad4_def by (simp add: digit_char_less_iff digit_char_eq_iff pad4_digits assms)
  also have "\<dots> = (m < n)"
    using l1 l2 l3 e2 e3 by blast
  finally show ?thesis .
qed

lemma lex_append_same_length:
  fixes xs ys :: "'a::linorder list"
  shows "length xs = length ys \<Longrightarrow> (xs @ u < ys @ v) = (xs < ys \<or> (xs = ys \<and> u < v))"
  by (induction xs ys rule: list_induct2) auto

lemma length_pad [simp]: "length (pad4 n) = 4" "length (pad2 n) = 2"
  by (simp_all add: pad4_def pad2_def)

lemma valid_date_bounds:
  assumes "valid_date a"
  shows "year a < 10000" "month a < 100" "day a < 100"
proof -
  show "year a < 10000" "month a < 100"
    using assms by (simp_all add: valid_date_def)
  have "day a \<le> 31"
    using assms by (simp add: valid_date_def days_in_month_def split: if_splits)
  then show "day a < 100" by simp
qed

text \<open>On dates, the order of the ISO strings is the order of the calendar.\<close>

lemma isoformat_less_iff:
  assumes "valid_date a" "valid_date b"
  shows "(isoformat a < isoformat b) = date_less a b"
  unfolding isoformat_def date_less_def
  by (simp add: lex_append_same_length
      pad4_less_iff [OF valid_date_bounds(1) [OF assms(1)] valid_date_bounds(1) [OF assms(2)]]
      pad4_eq_iff [OF valid_date_bounds(1) [OF assms(1)] valid_date_bounds(1) [OF assms(2)]]
      pad2_less_iff [OF valid_date_bounds(2) [OF assms(1)] valid_date_bounds(2) [OF assms(2)]]
      pad2_eq_iff [OF valid_date_bounds(2) [OF assms(1)] valid_date_bounds(2) [OF assms(2)]]
      pad2_less_iff [OF valid_date_bounds(3) [OF assms(1)] valid_date_bounds(3) [OF assms(2)]])

lemma isoformat_eq_iff:
  assumes "valid_date a" "valid_date b"
  shows "(isoformat a = isoformat b) = (a = b)"
  unfolding isoformat_def
  by (simp add:
      pad4_eq_iff [OF valid_date_bounds(1) [OF assms(1)] valid_date_bounds(1) [OF assms(2)]]
      pad2_eq_iff [OF valid_date_bounds(2) [OF assms(1)] valid_date_bounds(2) [OF assms(2)]]
      pad2_eq_iff [OF valid_date_bounds(3) [OF assms(1)] valid_date_bounds(3) [OF assms(2)]])
     (auto simp: date.expand)

lemma strptime_ymd_valid: "strptime_ymd s = Some d \<Longrightarrow> valid_date d"
  by (auto simp: strptime_ymd_def Let_def split: list.splits if_splits option.splits)

lemma to_date_obj_valid: "wf_val v \<Longrightarrow> to_date_obj v = Some d \<Longrightarrow> valid_date d"
  by (cases v) (auto dest: strptime_ymd_valid)

section \<open>The incremental filter\<close>

lemma filter_loop_step:
  "filter_loop lrd processed (r # rows) =
     (if keep_row lrd processed r then r # filter_loop lrd processed rows
      else filter_loop lrd processed rows)"
  by (simp add: keep_row_def row_date_def Let_def split: option.splits)

lemma filter_loop_keep: "filter_loop lrd processed rows = filter (keep_row lrd processed) rows"
proof (induction rows)
  case Nil
  show ?case by simp
next
  case (Cons r rows)
  then show ?case by (simp only: filter_loop_step filter.simps)
qed

lemma keep_row_eligible:
  assumes "wf_val (row_get r ''createdat'')"
    and "\<forall>wd. wmark = Some wd \<longrightarrow> valid_date wd"
  shows "keep_row (map_option isoformat wmark) processed r = eligible wmark processed r"
proof (cases "row_date r")
  case None
  then show ?thesis by (simp add: keep_row_def eligible_def)
next
  case (Some rd)
  then have v: "valid_date rd"
    using assms(1) to_date_obj_valid by (simp add: row_date_def)
  show ?thesis
  proof (cases wmark)
    case None
    then show ?thesis by (simp add: keep_row_def eligible_def Some)
  next
    case (Some wd)
    then have "valid_date wd" using assms(2) by simp
    then show ?thesis
      using v \<open>row_date r = Some rd\<close> Some
      by (simp add: keep_row_def eligible_def isoformat_less_iff isoformat_eq_iff)
  qed
qed

lemmas date_eval = strptime_ymd_def parse_month_def parse_day_def py_isdigit_def digit_val_def
  valid_date_def days_in_month_def is_leap_def isoformat_def pad4_def pad2_def digit_char_def
  char_of_def bit_0 date_less_def

text \<open>
  Claim C1, as the code has it. For rows whose native dates are dates Python can build
  and a watermark that is absent or the ISO string of a date, the filter returns, in
  input order, exactly the rows that \<open>eligible\<close> accepts: a row without a parseable
  creation date is excluded; with no watermark every other row is included; a row dated
  after the watermark is included, one dated before it is excluded; a row dated on the
  watermark is included if and only if it has a non-empty identity key that is not in
  \<open>processed_emails_same_date\<close>.
\<close>

theorem filter_rows_rules:
  assumes "\<forall>r\<in>set rows. wf_val (row_get r ''createdat'')"
    and "\<forall>wd. wmark = Some wd \<longrightarrow> valid_date wd"
    and "last_run_date t = map_option isoformat wmark"
  shows "filter_rows_for_processing rows t
       = filter (eligible wmark (set (get_or (processed_emails_same_date t) []))) rows"
proof -
  have "filter_rows_for_processing rows t
      = filter (keep_row (map_option isoformat wmark)
                  (set (get_or (processed_emails_same_date t) []))) rows"
    by (simp add: filter_rows_for_processing_def filter_loop_keep assms(3))
  also have "\<dots> = filter (eligible wmark (set (get_or (processed_emails_same_date t) []))) rows"
    by (rule filter_cong) (simp_all add: keep_row_eligible assms(1,2))
  finally show ?thesis .
qed

text \<open>
  The same-day scenario of the specification: with watermark 2024-05-01 and
  \<open>a@x.com\<close> already processed on that day, of the five rows only \<open>b@x.com\<close> of
  2024-05-01 and \<open>a@x.com\<close> of 2024-05-02 are selected.
\<close>

theorem filter_rows_rules_witness:
  "filter_rows_for_processing
     [ex_row (Some ''a@x.com'') ''2024-05-01'', ex_row (Some ''b@x.com'') ''2024-05-01'',
      ex_row (Some ''a@x.com'') ''2024-05-02'', ex_row (Some ''c@x.com'') ''2024-04-30'',
      ex_row (Some ''d@x.com'') ''not a date'']
     ex_tracking
   = [ex_row (Some ''b@x.com'') ''2024-05-01'', ex_row (Some ''a@x.com'') ''2024-05-02'']"
  using filter_rows_rules [of
     "[ex_row (Some ''a@x.com'') ''2024-05-01'', ex_row (Some ''b@x.com'') ''2024-05-01'',
      ex_row (Some ''a@x.com'') ''2024-05-02'', ex_row (Some ''c@x.com'') ''2024-04-30'',
      ex_row (Some ''d@x.com'') ''not a date'']" "Some (Date 2024 5 1)" ex_tracking]
  by (simp add: ex_tracking_def ex_row_def eligible_def row_date_def row_get_def get_val_def
      row_email_def py_or_def str_truthy_def get_or_def date_eval)

text \<open>
  The rule as the specification words it fails on a row without an identity key that is
  dated on the watermark: no key of that row is in the same-day set, so the worded rule
  selects it, and the filter drops it.
\<close>

theorem filter_rows_as_stated_counterexample:
  "last_run_date ex_tracking = Some (isoformat (Date 2024 5 1))
   \<and> filter (eligible_as_stated (Some (Date 2024 5 1))
               (set (get_or (processed_emails_same_date ex_tracking) [])))
        [ex_row None ''2024-05-01'']
     = [ex_row None ''2024-05-01'']
   \<and> filter_rows_for_processing [ex_row None ''2024-05-01''] ex_tracking = []"
  by (simp add: ex_tracking_def ex_row_def eligible_as_stated_def row_date_def row_get_def
      get_val_def row_email_def py_or_def str_truthy_def filter_rows_for_processing_def
      get_or_def date_eval)

text \<open>
  Claim C10. The identity key of a row decides nothing unless the row is dated on the
  watermark: a row dated on the watermark that has no (or an empty) key is never
  selected; a row dated after the watermark, and any dated row of a first run, is
  selected whatever its key; and for a row not dated on the watermark, replacing the
  three identity columns by anything leaves the decision as it was.
\<close>

theorem filter_email_only_on_watermark_date:
  assumes "r \<in> set rows"
    and "wf_val (row_get r ''createdat'')"
    and "\<forall>wd. wmark = Some wd \<longrightarrow> valid_date wd"
    and "last_run_date t = map_option isoformat wmark"
    and "row_date r = Some rd"
  shows "(wmark = Some rd \<and> \<not> str_truthy (row_email r)
            \<longrightarrow> r \<notin> set (filter_rows_for_processing rows t))
       \<and> ((wmark = None \<or> (\<exists>wd. wmark = Some wd \<and> date_less wd rd))
            \<longrightarrow> r \<in> set (filter_rows_for_processing rows t))
       \<and> (wmark \<noteq> Some rd
            \<longrightarrow> (filter_rows_for_processing [r\<lparr>emailaddress := a, email := b, Email := c\<rparr>] t = [])
               = (filter_rows_for_processing [r] t = []))"
proof -
  let ?P = "set (get_or (processed_emails_same_date t) [])"
  let ?r' = "r\<lparr>emailaddress := a, email := b, Email := c\<rparr>"
  have mem: "\<And>x xs. (x \<in> set (filter_rows_for_processing xs t))
      = (x \<in> set xs \<and> keep_row (map_option isoformat wmark) ?P x)"
    by (simp add: filter_rows_for_processing_def filter_loop_keep assms(4))
  have k: "keep_row (map_option isoformat wmark) ?P r = eligible wmark ?P r"
    by (rule keep_row_eligible [OF assms(2,3)])
  have k': "keep_row (map_option isoformat wmark) ?P ?r' = eligible wmark ?P ?r'"
    by (rule keep_row_eligible) (use assms(2,3) in \<open>simp_all add: row_get_def\<close>)
  have c1: "wmark = Some rd \<and> \<not> str_truthy (row_email r)
      \<longrightarrow> r \<notin> set (filter_rows_for_processing rows t)"
  proof (intro impI, elim conjE)
    assume w: "wmark = Some rd" and n: "\<not> str_truthy (row_email r)"
    have "\<not> eligible wmark ?P r"
      using w n
      by (auto simp: eligible_def assms(5) date_less_def str_truthy_def split: option.splits)
    then show "r \<notin> set (filter_rows_for_processing rows t)"
      by (simp add: mem k)
  qed
  have c2: "(wmark = None \<or> (\<exists>wd. wmark = Some wd \<and> date_less wd rd))
      \<longrightarrow> r \<in> set (filter_rows_for_processing rows t)"
    by (auto simp: mem k eligible_def assms(1,5))
  have rd': "row_date ?r' = Some rd"
    using assms(5) by (simp add: row_date_def row_get_def)
  have e: "wmark \<noteq> Some rd \<Longrightarrow> eligible wmark ?P ?r' = eligible wmark ?P r"
    by (cases wmark) (auto simp: eligible_def assms(5) rd')
  have single: "\<And>x. (filter_rows_for_processing [x] t = [])
      = (\<not> keep_row (map_option isoformat wmark) ?P x)"
    by (simp add: filter_rows_for_processing_def filter_loop_keep assms(4))
  have c3: "wmark \<noteq> Some rd
      \<longrightarrow> (filter_rows_for_processing [?r'] t = []) = (filter_rows_for_processing [r] t = [])"
    by (simp add: single k k' e)
  from c1 c2 c3 show ?thesis by blast
qed

text \<open>
  Two rows without any identity column, against watermark 2024-05-01: the one dated on
  the watermark is dropped, the one dated a day later is selected.
\<close>

theorem filter_email_only_on_watermark_date_witness:
  "ex_row None ''2024-05-01'' \<notin> set (filter_rows_for_processing
       [ex_row None ''2024-05-01'', ex_row None ''2024-05-02''] ex_tracking)
   \<and> ex_row None ''2024-05-02'' \<in> set (filter_rows_for_processing
       [ex_row None ''2024-05-01'', ex_row None ''2024-05-02''] ex_tracking)"
proof -
  have d1: "row_date (ex_row None ''2024-05-01'') = Some (Date 2024 5 1)"
    and d2: "row_date (ex_row None ''2024-05-02'') = Some (Date 2024 5 2)"
    by (simp_all add: ex_row_def row_date_def row_get_def get_val_def date_eval)
  have w: "\<forall>wd. Some (Date 2024 5 1) = Some wd \<longrightarrow> valid_date wd"
    by (simp add: date_eval)
  have l: "last_run_date ex_tracking = map_option isoformat (Some (Date 2024 5 1))"
    by (simp add: ex_tracking_def date_eval)
  have n: "\<not> str_truthy (row_email (ex_row None ''2024-05-01''))"
    by (simp add: ex_row_def row_email_def py_or_def str_truthy_def)
  have lt: "date_less (Date 2024 5 1) (Date 2024 5 2)"
    by (simp add: date_less_def)
  show ?thesis
    using filter_email_only_on_watermark_date
            [of "ex_row None ''2024-05-01''"
                "[ex_row None ''2024-05-01'', ex_row None ''2024-05-02'']"
                "Some (Date 2024 5 1)" ex_tracking "Date 2024 5 1", OF _ _ w l d1]
          filter_email_only_on_watermark_date
            [of "ex_row None ''2024-05-02''"
                "[ex_row None ''2024-05-01'', ex_row None ''2024-05-02'']"
                "Some (Date 2024 5 1)" ex_tracking "Date 2024 5 2", OF _ _ w l d2]
          n lt
    by (simp add: ex_row_def row_get_def get_val_def)
qed

text \<open>
  Claim C9. Finalization leaves \<open>email_to_issue\<close> and \<open>flagged_requests\<close> exactly as
  they were; the two fields it writes are the only other fields of the state.
\<close>

theorem finalize_frame:
  "email_to_issue (finalize_tracking_after_run t emails_processed_today d) = email_to_issue t
   \<and> flagged_requests (finalize_tracking_after_run t emails_processed_today d)
     = flagged_requests t"
  by (simp add: finalize_tracking_after_run_def)

section \<open>The handset field\<close>

lemma map_of_dict_set: "map_of (dict_set d k v) k' = (if k' = k then Some v else map_of d k')"
  by (induction d) auto

subsection \<open>Splitting and trimming\<close>

lemma py_split_not_Nil: "py_split sep s \<noteq> []"
  by (induction s) (auto split: list.splits)

lemma py_split_concat: "concat (map ((#) sep) (py_split sep s)) = sep # s"
proof (induction s)
  case Nil
  show ?case by simp
next
  case (Cons c cs)
  show ?case
  proof (cases "c = sep")
    case True
    then show ?thesis using Cons by simp
  next
    case False
    obtain w ws where w: "py_split sep cs = w # ws"
      using py_split_not_Nil [of sep cs] by (cases "py_split sep cs") auto
    then show ?thesis using Cons False by simp
  qed
qed

lemma py_split_no_sep: "sep \<notin> set (concat (py_split sep s))"
proof (induction s)
  case Nil
  show ?case by simp
next
  case (Cons c cs)
  show ?case
  proof (cases "c = sep")
    case True
    then show ?thesis using Cons by simp
  next
    case False
    obtain w ws where w: "py_split sep cs = w # ws"
      using py_split_not_Nil [of sep cs] by (cases "py_split sep cs") auto
    then show ?thesis using Cons False by auto
  qed
qed

lemma py_strip_decompose:
  "\<exists>a b. p = a @ py_strip p @ b \<and> list_all py_isspace a \<and> list_all py_isspace b"
proof -
  let ?q = "dropWhile py_isspace p"
  let ?a = "takeWhile py_isspace p"
  let ?b = "rev (takeWhile py_isspace (rev ?q))"
  have "?q = rev (rev ?q)"
    by (simp only: rev_rev_ident)
  also have "\<dots> = rev (takeWhile py_isspace (rev ?q) @ dropWhile py_isspace (rev ?q))"
    by (simp only: takeWhile_dropWhile_id)
  also have "\<dots> = rev (dropWhile py_isspace (rev ?q)) @ ?b"
    by (simp only: rev_append)
  finally have q: "?q = py_strip p @ ?b"
    unfolding py_strip_def .
  have "?a @ ?q = p"
    by (rule takeWhile_dropWhile_id)
  then have p: "p = ?a @ py_strip p @ ?b"
    by (metis q)
  have a: "list_all py_isspace ?a"
    by (simp add: list_all_iff) (meson set_takeWhileD)
  have b: "list_all py_isspace ?b"
    by (simp add: list_all_iff) (meson set_takeWhileD)
  show ?thesis
    using p a b by blast
qed

lemma last_dropWhile: "dropWhile P xs \<noteq> [] \<Longrightarrow> last (dropWhile P xs) = last xs"
  by (metis last_appendR takeWhile_dropWhile_id)

lemma py_strip_ends:
  assumes "py_strip p \<noteq> []"
  shows "\<not> py_isspace (hd (py_strip p)) \<and> \<not> py_isspace (last (py_strip p))"
proof -
  let ?q = "dropWhile py_isspace p"
  let ?ys = "dropWhile py_isspace (rev ?q)"
  have ys: "?ys \<noteq> []" using assms by (simp add: py_strip_def)
  have q: "?q \<noteq> []"
  proof
    assume "?q = []"
    then have "?ys = dropWhile py_isspace (rev [])"
      by (rule arg_cong [where f = "\<lambda>x. dropWhile py_isspace (rev x)"])
    then have "?ys = []"
      by (simp only: rev.simps dropWhile.simps)
    with ys show False by (rule notE)
  qed
  have l: "\<not> py_isspace (hd ?ys)" using ys by (rule hd_dropWhile)
  have "last ?ys = last (rev ?q)" using ys by (rule last_dropWhile)
  then have "last ?ys = hd ?q" using q by (simp add: last_rev)
  moreover have "\<not> py_isspace (hd ?q)" using q by (rule hd_dropWhile)
  ultimately have h: "\<not> py_isspace (last ?ys)" by simp
  show ?thesis
    using l h ys by (simp add: py_strip_def hd_rev last_rev)
qed

subsection \<open>The label table and the loop\<close>

lemma handset_label_map_snoc:
  "handset_label_map (chs @ [ch])
     = (case ch_label ch of
          None \<Rightarrow> handset_label_map chs
        | Some l \<Rightarrow> dict_set (handset_label_map chs) (filter py_isalnum (py_lower l))
                      (str_of_opt (ch_id ch)))"
  by (cases "ch_label ch") (simp_all add: handset_label_map_def normalize_label_def)

lemma map_of_handset_label_map:
  "map_of (handset_label_map chs) k
     = map_option (\<lambda>ch. str_of_opt (ch_id ch))
         (find (\<lambda>ch. map_option (\<lambda>l. filter py_isalnum (py_lower l)) (ch_label ch) = Some k)
            (rev chs))"
proof (induction chs rule: rev_induct)
  case Nil
  show ?case by (simp add: handset_label_map_def)
next
  case (snoc ch chs)
  show ?case
  proof (cases "ch_label ch")
    case None
    then show ?thesis using snoc by (simp add: handset_label_map_snoc)
  next
    case (Some l)
    then show ?thesis using snoc by (simp add: handset_label_map_snoc map_of_dict_set)
  qed
qed

lemma handset_choice_id_find:
  "handset_choice_id (handset_label_map chs) p
     = (case find (\<lambda>ch. map_option (\<lambda>l. filter py_isalnum (py_lower l)) (ch_label ch)
                          = Some (filter py_isalnum (py_lower p))) (rev chs) of
          None \<Rightarrow> ''0''
        | Some ch \<Rightarrow> (case ch_id ch of
                        None \<Rightarrow> ''None''
                      | Some i \<Rightarrow> if i = [] then ''0'' else i))"
  by (simp add: handset_choice_id_def map_of_handset_label_map normalize_label_def
      str_of_opt_def split: option.splits)

lemma handsets_loop_first_seen:
  "distinct seen \<Longrightarrow>
   handsets_loop m seen parts
     = seen @ filter (\<lambda>x. x \<notin> set seen) (first_seen (map (handset_choice_id m) parts))"
proof (induction parts arbitrary: seen)
  case Nil
  then show ?case by simp
next
  case (Cons p parts)
  show ?case
  proof (cases "handset_choice_id m p \<in> set seen")
    case True
    then show ?thesis
      using Cons by (simp add: Let_def) (metis (mono_tags, lifting) filter_cong)
  next
    case False
    then show ?thesis
      using Cons by (simp add: Let_def conj_commute cong: filter_cong)
  qed
qed

lemma remdups_snoc: "remdups (ys @ [x]) = filter (\<lambda>y. y \<noteq> x) (remdups ys) @ [x]"
  by (induction ys) auto

lemma first_seen_remdups: "first_seen xs = rev (remdups (rev xs))"
  by (induction xs) (simp_all add: remdups_snoc rev_filter)

lemmas handset_eval = map_handsets_field_dynamic_def handset_parts_def handset_choices_def
  ex_questions_def handset_label_map_def handset_choice_id_def normalize_label_def py_strip_def
  py_isspace_def py_lower_def py_lower_char_def py_isalnum_def char_of_def bit_0 get_or_def
  str_of_opt_def Let_def

text \<open>
  Claim C4. An absent or empty input gives the empty list. Otherwise, with \<open>chs\<close> the
  choices of question 159 (none when the question or its choice list is missing):

  \<^item> the input is split on \<open>;\<close> (the parts joined again with \<open>;\<close> are the input, and no
    part holds a \<open>;\<close>), each part is trimmed (white space, and only white space, is
    taken off both ends) and the parts that are blank are dropped;

  \<^item> each part is normalized (put in lower case, every character that is not a letter or
    a digit removed) and looked up among the normalized labels of \<open>chs\<close>, where of two
    choices with the same normalized label the later one counts; a part that no label
    matches gets \<open>0\<close>, and so does a part whose choice has the empty id (the id of a
    choice that has none reads \<open>None\<close>);

  \<^item> of the ids so obtained every later repetition is removed, so the result has no
    duplicates, holds the same ids and keeps the order of first appearance.

  The example of the specification evaluates to \<open>10, 11, 0\<close>.
\<close>

theorem map_handsets_field_dynamic_spec:
  assumes "chs = (case map_of questions ''159'' of
                    None \<Rightarrow> []
                  | Some q \<Rightarrow> (case choices q of None \<Rightarrow> [] | Some cs \<Rightarrow> cs))"
    and "parts = filter (\<lambda>p. p \<noteq> []) (map py_strip (py_split CHR '';'' raw))"
    and "ids = map (\<lambda>p. case find (\<lambda>ch. map_option (\<lambda>l. filter py_isalnum (py_lower l))
                                          (ch_label ch)
                                        = Some (filter py_isalnum (py_lower p))) (rev chs) of
                          None \<Rightarrow> ''0''
                        | Some ch \<Rightarrow> (case ch_id ch of
                                        None \<Rightarrow> ''None''
                                      | Some i \<Rightarrow> if i = [] then ''0'' else i))
                 parts"
  shows "map_handsets_field_dynamic None questions = []
   \<and> map_handsets_field_dynamic (Some []) questions = []
   \<and> map_handsets_field_dynamic (Some raw) questions = rev (remdups (rev ids))
   \<and> distinct (map_handsets_field_dynamic (Some raw) questions)
   \<and> set (map_handsets_field_dynamic (Some raw) questions) = set ids
   \<and> concat (map ((#) CHR '';'') (py_split CHR '';'' raw)) = CHR '';'' # raw
   \<and> CHR '';'' \<notin> set (concat (py_split CHR '';'' raw))
   \<and> (\<exists>a b. p = a @ py_strip p @ b \<and> list_all py_isspace a \<and> list_all py_isspace b)
   \<and> (py_strip p \<noteq> []
        \<longrightarrow> \<not> py_isspace (hd (py_strip p)) \<and> \<not> py_isspace (last (py_strip p)))
   \<and> map_handsets_field_dynamic (Some ''Cordless handset; Mobile phone; Unknown Gadget'')
        ex_questions = [''10'', ''11'', ''0'']"
proof -
  let ?m = "handset_label_map (handset_choices questions)"
  have chs: "handset_choices questions = chs"
    by (simp add: handset_choices_def assms(1) get_or_def split: option.splits)
  have loop: "\<And>ps. handsets_loop ?m [] ps = first_seen (map (handset_choice_id ?m) ps)"
    using handsets_loop_first_seen [of "[]" ?m] by simp
  have ids: "map (handset_choice_id ?m) (handset_parts raw) = ids"
    unfolding chs assms(3) assms(2) handset_parts_def
    by (rule map_cong [OF refl]) (rule handset_choice_id_find)
  have c1: "map_handsets_field_dynamic None questions = []"
    by (simp add: map_handsets_field_dynamic_def)
  have c2: "map_handsets_field_dynamic (Some []) questions = []"
    by (simp add: map_handsets_field_dynamic_def)
  have "map_handsets_field_dynamic (Some raw) questions
       = first_seen (map (handset_choice_id ?m) (handset_parts raw))"
    by (cases "raw = []")
       (simp_all add: map_handsets_field_dynamic_def loop handset_parts_def py_strip_def)
  then have c3: "map_handsets_field_dynamic (Some raw) questions = rev (remdups (rev ids))"
    by (simp add: ids first_seen_remdups)
  have c4: "distinct (map_handsets_field_dynamic (Some raw) questions)"
    by (simp add: c3)
  have c5: "set (map_handsets_field_dynamic (Some raw) questions) = set ids"
    by (simp add: c3)
  have c6: "concat (map ((#) CHR '';'') (py_split CHR '';'' raw)) = CHR '';'' # raw"
    by (rule py_split_concat)
  have c7: "CHR '';'' \<notin> set (concat (py_split CHR '';'' raw))"
    by (rule py_split_no_sep)
  have c8: "\<exists>a b. p = a @ py_strip p @ b \<and> list_all py_isspace a \<and> list_all py_isspace b"
    by (rule py_strip_decompose)
  have c9: "py_strip p \<noteq> []
        \<longrightarrow> \<not> py_isspace (hd (py_strip p)) \<and> \<not> py_isspace (last (py_strip p))"
    using py_strip_ends by blast
  have c10: "map_handsets_field_dynamic
               (Some ''Cordless handset; Mobile phone; Unknown Gadget'') ex_questions
             = [''10'', ''11'', ''0'']"
    by (simp add: handset_eval)
  show ?thesis
    using c1 c2 c3 c4 c5 c6 c7 c8 c9 c10 by blast
qed

text \<open>
  On the form \<open>ex_handset_form\<close>, an input with blank parts, white space around the
  parts, labels in other spellings, a label that only question 160 knows, a label whose
  choice has the empty id and one whose choice has no id. On the table of the
  specification: a label that matches only once its hyphen is removed and it is put in
  lower case, a label written without its space, a repeated label after another one,
  and an input of blank parts only.
\<close>

theorem map_handsets_field_dynamic_spec_witness:
  "map_handsets_field_dynamic
       (Some '' Mobile-Phone ;; ;CORDLESS handset;Fax;mobile phone;Speaker; head set 2'')
       ex_handset_form
     = [''14'', ''10'', ''0'', ''None'']
   \<and> py_strip ''  Mobile phone '' = ''Mobile phone''
   \<and> map_handsets_field_dynamic (Some ''Mobile-Phone'') ex_questions = [''11'']
   \<and> map_handsets_field_dynamic (Some ''cordlesshandset'') ex_questions = [''10'']
   \<and> map_handsets_field_dynamic (Some ''Mobile_phone'') ex_questions = [''11'']
   \<and> map_handsets_field_dynamic (Some ''Mobile phones'') ex_questions = [''0'']
   \<and> map_handsets_field_dynamic (Some ''MOBILE PHONE;Cordless handset;mobile phone'')
        ex_questions = [''11'', ''10'']
   \<and> map_handsets_field_dynamic (Some '' ; '') ex_questions = []"
proof -
  let ?chs = "[\<lparr> ch_label = Some ''Cordless handset'', ch_id = Some ''10'' \<rparr>,
               \<lparr> ch_label = Some ''Mobile phone'', ch_id = Some ''11'' \<rparr>,
               \<lparr> ch_label = None, ch_id = Some ''12'' \<rparr>,
               \<lparr> ch_label = Some ''Head-Set 2'', ch_id = None \<rparr>,
               \<lparr> ch_label = Some ''Speaker'', ch_id = Some [] \<rparr>,
               \<lparr> ch_label = Some ''MOBILE  PHONE'', ch_id = Some ''14'' \<rparr>]"
  let ?raw = "'' Mobile-Phone ;; ;CORDLESS handset;Fax;mobile phone;Speaker; head set 2''"
  let ?parts = "[''Mobile-Phone'', ''CORDLESS handset'', ''Fax'', ''mobile phone'', ''Speaker'',
                 ''head set 2'']"
  let ?ids = "[''14'', ''10'', ''0'', ''14'', ''0'', ''None'']"
  have h1: "?chs = (case map_of ex_handset_form ''159'' of
                      None \<Rightarrow> []
                    | Some q \<Rightarrow> (case choices q of None \<Rightarrow> [] | Some cs \<Rightarrow> cs))"
    by (simp add: ex_handset_form_def)
  have h2: "?parts = filter (\<lambda>p. p \<noteq> []) (map py_strip (py_split CHR '';'' ?raw))"
    by (simp add: py_strip_def py_isspace_def)
  have h3: "?ids = map (\<lambda>p. case find (\<lambda>ch. map_option (\<lambda>l. filter py_isalnum (py_lower l))
                                               (ch_label ch)
                                             = Some (filter py_isalnum (py_lower p)))
                                   (rev ?chs) of
                          None \<Rightarrow> ''0''
                        | Some ch \<Rightarrow> (case ch_id ch of
                                        None \<Rightarrow> ''None''
                                      | Some i \<Rightarrow> if i = [] then ''0'' else i))
                 ?parts"
    by (simp add: py_lower_def py_lower_char_def py_isalnum_def py_isdigit_def char_of_def bit_0)
  have s: "py_strip ''  Mobile phone '' = ''Mobile phone''"
    by (simp add: py_strip_def py_isspace_def)
  have a: "map_handsets_field_dynamic (Some ?raw) ex_handset_form
             = [''14'', ''10'', ''0'', ''None'']"
    using map_handsets_field_dynamic_spec [OF h1 h2 h3, where p = "''  Mobile phone ''"]
    by simp
  have b: "map_handsets_field_dynamic (Some ''Mobile-Phone'') ex_questions = [''11'']"
    and c: "map_handsets_field_dynamic (Some ''cordlesshandset'') ex_questions = [''10'']"
    and d: "map_handsets_field_dynamic (Some ''Mobile_phone'') ex_questions = [''11'']"
    and e: "map_handsets_field_dynamic (Some ''Mobile phones'') ex_questions = [''0'']"
    and f: "map_handsets_field_dynamic (Some ''MOBILE PHONE;Cordless handset;mobile phone'')
              ex_questions = [''11'', ''10'']"
    and g: "map_handsets_field_dynamic (Some '' ; '') ex_questions = []"
    by (simp_all add: handset_eval py_isdigit_def)
  show ?thesis
    using a s b c d e f g by simp
qed


section \<open>Building the form answers\<close>

lemma flag_request_flagged:
  "map_of (get_or (flagged_requests (flag_request t e reason)) []) e = Some reason"
  by (simp add: flag_request_def get_or_def map_of_dict_set)

text \<open>
  The date rule for temporary requests. With a timeframe question configured, a row
  whose normalized timeframe is \<open>temporary\<close> makes \<open>build_form_answers\<close> return
  \<open>None\<close> and record a flagged request under the row's identity key whenever the
  needed-by date or the ending date does not parse, or the ending date is not strictly
  later than the needed-by date (equal dates are rejected). When the timeframe maps to a
  choice, both dates parse and the ending date is strictly later, the answers are
  returned and the tracking state is left as it was.
\<close>

lemma build_form_answers_temporary_dates:
  assumes "map_of (DB_TO_QID cfg) ''timeframe'' = Some tq"
  shows "(timeframe_norm so r = ''temporary''
          \<and> (to_date_obj (row_get r ''dateneededby'') = None
             \<or> to_date_obj (row_get r ''approximateendingdate'') = None
             \<or> (\<exists>dn ae. to_date_obj (row_get r ''dateneededby'') = Some dn
                   \<and> to_date_obj (row_get r ''approximateendingdate'') = Some ae
                   \<and> \<not> date_less dn ae))
          \<longrightarrow> (\<exists>reason. build_form_answers cfg so r qs cm t
                          = Inr (None, flag_request t (row_email r) reason)
                 \<and> map_of (get_or (flagged_requests (flag_request t (row_email r) reason)) [])
                       (row_email r) = Some reason))
       \<and> (timeframe_norm so r = ''temporary''
          \<and> str_truthy (map_of (get_or (map_of cm tq) []) ''temporary'')
          \<and> to_date_obj (row_get r ''dateneededby'') = Some dn
          \<and> to_date_obj (row_get r ''approximateendingdate'') = Some ae
          \<and> date_less dn ae
          \<longrightarrow> (\<exists>answers. build_form_answers cfg so r qs cm t = Inr (Some answers, t)))"
proof (intro conjI impI)
  assume a: "timeframe_norm so r = ''temporary''
          \<and> (to_date_obj (row_get r ''dateneededby'') = None
             \<or> to_date_obj (row_get r ''approximateendingdate'') = None
             \<or> (\<exists>dn ae. to_date_obj (row_get r ''dateneededby'') = Some dn
                   \<and> to_date_obj (row_get r ''approximateendingdate'') = Some ae
                   \<and> \<not> date_less dn ae))"
  then have "\<exists>reason. build_form_answers cfg so r qs cm t
                          = Inr (None, flag_request t (row_email r) reason)"
    by (auto simp: build_form_answers_def assms Let_def split: option.splits)
  then show "\<exists>reason. build_form_answers cfg so r qs cm t
                          = Inr (None, flag_request t (row_email r) reason)
                 \<and> map_of (get_or (flagged_requests (flag_request t (row_email r) reason)) [])
                       (row_email r) = Some reason"
    by (auto simp: flag_request_flagged)
next
  assume "timeframe_norm so r = ''temporary''
          \<and> str_truthy (map_of (get_or (map_of cm tq) []) ''temporary'')
          \<and> to_date_obj (row_get r ''dateneededby'') = Some dn
          \<and> to_date_obj (row_get r ''approximateendingdate'') = Some ae
          \<and> date_less dn ae"
  then show "\<exists>answers. build_form_answers cfg so r qs cm t = Inr (Some answers, t)"
    by (simp add: build_form_answers_def assms Let_def)
qed


lemmas answers_eval = build_form_answers_def timeframe_norm_def timeframe_raw_def py_str_def
  row_get_def get_val_def row_email_def py_or_def str_truthy_def str_of_opt_def get_or_def
  py_strip_def py_isspace_def py_lower_def py_lower_char_def py_isalnum_def Let_def
  map_field_def question_type_def choice_labels_def

text \<open>
  The example of the specification: needed by 2024-06-01, ending 2024-05-01 is flagged;
  so are an equal ending date and an unparsable one; ending 2024-07-01 is accepted.
\<close>

lemma build_form_answers_temporary_dates_examples:
  "timeframe_norm (\<lambda>v. []) (ex_request '' Temporary '' ''2024-06-01'' ''2024-05-01'') = ''temporary''
   \<and> build_form_answers ex_config (\<lambda>v. [])
       (ex_request '' Temporary '' ''2024-06-01'' ''2024-05-01'')
       ex_form_questions ex_choice_map empty_tracking
     = Inr (None, flag_request empty_tracking (Some ''a@x.com'')
                    ''approximateendingdate <= dateneededby'')
   \<and> build_form_answers ex_config (\<lambda>v. [])
       (ex_request '' Temporary '' ''2024-06-01'' ''2024-06-01'')
       ex_form_questions ex_choice_map empty_tracking
     = Inr (None, flag_request empty_tracking (Some ''a@x.com'')
                    ''approximateendingdate <= dateneededby'')
   \<and> build_form_answers ex_config (\<lambda>v. [])
       (ex_request '' Temporary '' ''2024-06-01'' ''soon'')
       ex_form_questions ex_choice_map empty_tracking
     = Inr (None, flag_request empty_tracking (Some ''a@x.com'')
                    ''Missing date(s) for temporary request'')
   \<and> build_form_answers ex_config (\<lambda>v. [])
       (ex_request '' Temporary '' ''2024-06-01'' ''2024-07-01'')
       ex_form_questions ex_choice_map empty_tracking
     = Inr (Some [(''10'', Choices [''1'']), (''11'', DateAns ''2024-06-01''),
                  (''12'', DateAns ''2024-07-01'')], empty_tracking)"
  by (simp add: ex_request_def ex_config_def ex_choice_map_def ex_form_questions_def
      answers_eval date_eval)

text \<open>
  Claim C5, the permanent request. The documentation of \<open>build_form_answers\<close> says
  that for the timeframe \<open>permanent\<close> the ending date is ignored, and the code sets its
  local \<open>approx_end\<close> to \<open>None\<close> in that branch; but nothing reads that local
  afterwards, and the loop over the configured columns takes the ending date from the
  row again. With the ending-date column configured as a date question (number 12
  here), the ending date of a permanent request is in the answers that are returned:
  two requests that differ in the ending date alone get different answers, an ending
  date earlier than the needed-by date is sent as it is, and so is one that is no date.
  A permanent request whose ending-date column is absent gets no answer to question 12.
\<close>

theorem build_form_answers_permanent_keeps_ending_date:
  "timeframe_norm (\<lambda>v. []) (ex_request ''Permanent'' ''2024-06-01'' ''2024-07-01'') = ''permanent''
   \<and> build_form_answers ex_config (\<lambda>v. [])
       (ex_request ''Permanent'' ''2024-06-01'' ''2024-07-01'')
       ex_form_questions ex_choice_map empty_tracking
     = Inr (Some [(''10'', Choices [''2'']), (''11'', DateAns ''2024-06-01''),
                  (''12'', DateAns ''2024-07-01'')], empty_tracking)
   \<and> build_form_answers ex_config (\<lambda>v. [])
       (ex_request ''Permanent'' ''2024-06-01'' ''2024-05-01'')
       ex_form_questions ex_choice_map empty_tracking
     = Inr (Some [(''10'', Choices [''2'']), (''11'', DateAns ''2024-06-01''),
                  (''12'', DateAns ''2024-05-01'')], empty_tracking)
   \<and> build_form_answers ex_config (\<lambda>v. [])
       (ex_request ''Permanent'' ''2024-06-01'' ''soon'')
       ex_form_questions ex_choice_map empty_tracking
     = Inr (Some [(''10'', Choices [''2'']), (''11'', DateAns ''2024-06-01''),
                  (''12'', DateAns ''soon'')], empty_tracking)
   \<and> build_form_answers ex_config (\<lambda>v. [])
       ((ex_request ''Permanent'' ''2024-06-01'' ''2024-07-01'')
          \<lparr> cols := [(''createdat'', PStr ''2024-05-01''), (''timeframe'', PStr ''Permanent''),
                      (''dateneededby'', PStr ''2024-06-01'')] \<rparr>)
       ex_form_questions ex_choice_map empty_tracking
     = Inr (Some [(''10'', Choices [''2'']), (''11'', DateAns ''2024-06-01'')],
            empty_tracking)"
  by (simp add: ex_request_def ex_config_def ex_choice_map_def ex_form_questions_def
      answers_eval date_eval)




text \<open>
  Where the ids of the table are non-empty, the matching is the one the specification
  words.
\<close>

lemma choice_ids_amended_spec:
  assumes "\<forall>kv\<in>set m. snd kv \<noteq> []"
  shows "choice_ids_amended m toks = choice_ids_spec m toks"
proof -
  have "token_choice_amended m tok = token_choice_spec m tok" for tok
  proof (cases "map_of m (filter py_isalnum (py_lower tok))")
    case None
    then show ?thesis by (simp add: token_choice_amended_def token_choice_spec_def Let_def)
  next
    case (Some c)
    then have "(filter py_isalnum (py_lower tok), c) \<in> set m" by (rule map_of_SomeD)
    then have "c \<noteq> []" using assms by auto
    then show ?thesis
      using Some by (simp add: token_choice_amended_def token_choice_spec_def Let_def)
  qed
  then have "token_choice_amended m = token_choice_spec m"
    by (intro ext)
  then show ?thesis
    by (simp add: choice_ids_amended_def choice_ids_spec_def)
qed






section \<open>Loading the tracking state\<close>

lemma setdefault_fold:
  "distinct (map fst dflt) \<Longrightarrow>
   foldl (\<lambda>d kv. setdefault d (fst kv) (snd kv)) data dflt
     = data @ filter (\<lambda>kv. map_of data (fst kv) = None) dflt"
proof (induction dflt arbitrary: data)
  case Nil
  show ?case by simp
next
  case (Cons kv dflt)
  have nk: "fst kv \<notin> fst ` set dflt" and d: "distinct (map fst dflt)"
    using Cons.prems by auto
  show ?case
  proof (cases "map_of data (fst kv)")
    case None
    have "filter (\<lambda>x. map_of (data @ [(fst kv, snd kv)]) (fst x) = None) dflt
        = filter (\<lambda>x. map_of data (fst x) = None) dflt"
    proof (rule filter_cong [OF refl])
      fix x assume "x \<in> set dflt"
      then have "fst x \<noteq> fst kv" using nk by (metis image_eqI)
      then show "(map_of (data @ [(fst kv, snd kv)]) (fst x) = None)
          = (map_of data (fst x) = None)"
        by (cases "map_of data (fst x)") (simp_all add: map_add_def)
    qed
    then show ?thesis
      using None Cons.IH [OF d, of "data @ [(fst kv, snd kv)]"]
      by (simp add: setdefault_def)
  next
    case (Some x)
    then show ?thesis
      using Cons.IH [OF d, of data] by (simp add: setdefault_def)
  qed
qed

lemma map_of_filter_key:
  "map_of (filter (\<lambda>kv. P (fst kv)) xs) k = (if P k then map_of xs k else None)"
  by (induction xs) auto

lemma distinct_default_keys: "distinct (map fst DEFAULT_STATE)"
  by (simp add: DEFAULT_STATE_def)

lemma read_tracking_dict:
  "read_tracking (Content (Some (JObj data)))
     = Inr (data @ filter (\<lambda>kv. map_of data (fst kv) = None) DEFAULT_STATE)"
  by (simp add: read_tracking_def read_tracking_try_def setdefault_fold distinct_default_keys)

text \<open>
  Claim C7. \<open>read_tracking\<close> returns a state for every condition of the backing file,
  it never raises. For a missing file, an unreadable file, content that is not JSON and
  JSON that is not an object, the state is \<open>DEFAULT_STATE\<close>. For a JSON object, the
  state is that object followed by the defaults of the keys it lacks: every entry the
  file has keeps its value, every key it lacks reads as in \<open>DEFAULT_STATE\<close>.
\<close>

theorem read_tracking_default_and_fill:
  "(\<exists>d. read_tracking f = Inr d)
   \<and> (f = Missing \<or> f = Unreadable \<or> f = Content None \<or> (\<exists>j. f = Content (Some j) \<and> (\<forall>d. j \<noteq> JObj d))
        \<longrightarrow> read_tracking f = Inr DEFAULT_STATE)
   \<and> read_tracking (Content (Some (JObj data)))
       = Inr (data @ filter (\<lambda>kv. map_of data (fst kv) = None) DEFAULT_STATE)
   \<and> (\<exists>d. read_tracking (Content (Some (JObj data))) = Inr d
          \<and> (\<forall>k v. map_of data k = Some v \<longrightarrow> map_of d k = Some v)
          \<and> (\<forall>k. map_of data k = None \<longrightarrow> map_of d k = map_of DEFAULT_STATE k))"
proof -
  have c1: "\<exists>d. read_tracking f = Inr d"
    by (simp add: read_tracking_def split: sum.splits)
  have c2: "f = Missing \<or> f = Unreadable \<or> f = Content None
            \<or> (\<exists>j. f = Content (Some j) \<and> (\<forall>d. j \<noteq> JObj d))
        \<longrightarrow> read_tracking f = Inr DEFAULT_STATE"
    by (auto simp: read_tracking_def read_tracking_try_def split: json.splits)
  let ?d = "data @ filter (\<lambda>kv. map_of data (fst kv) = None) DEFAULT_STATE"
  have keep: "\<forall>k v. map_of data k = Some v \<longrightarrow> map_of ?d k = Some v"
    by (simp add: map_add_def)
  have fill: "\<forall>k. map_of data k = None \<longrightarrow> map_of ?d k = map_of DEFAULT_STATE k"
  proof (intro allI impI)
    fix k assume n: "map_of data k = None"
    have "map_of (filter (\<lambda>kv. map_of data (fst kv) = None) DEFAULT_STATE) k
        = map_of DEFAULT_STATE k"
      using n map_of_filter_key [of "\<lambda>k. map_of data k = None" DEFAULT_STATE k] by simp
    then show "map_of ?d k = map_of DEFAULT_STATE k"
      using n by (simp add: map_add_def)
  qed
  show ?thesis
    using c1 c2 keep fill by (simp add: read_tracking_dict)
qed


text \<open>
  A file that holds a JSON array, and an older file that has only \<open>email_to_issue\<close>
  and a field of its own.
\<close>

theorem read_tracking_default_and_fill_witness:
  "read_tracking (Content (Some (JArr [JNum 1]))) = Inr DEFAULT_STATE
   \<and> read_tracking (Content (Some (JObj
         [(''email_to_issue'', JObj [(''a@x.com'', JStr ''K-1'')]), (''note'', JStr ''kept'')])))
     = Inr [(''email_to_issue'', JObj [(''a@x.com'', JStr ''K-1'')]), (''note'', JStr ''kept''),
            (''last_run_date'', JNull), (''processed_emails_same_date'', JArr []),
            (''flagged_requests'', JObj [])]"
  using read_tracking_default_and_fill
          [where f = "Content (Some (JArr [JNum 1]))"
             and data = "[(''email_to_issue'', JObj [(''a@x.com'', JStr ''K-1'')]),
                          (''note'', JStr ''kept'')]"]
  by (simp add: DEFAULT_STATE_def)

section \<open>Fetching the form definition\<close>

lemma fetch_loop_calls: "snd (fetch_loop transport attempts calls) \<le> calls + length attempts"
proof (induction attempts arbitrary: calls)
  case Nil
  show ?case by simp
next
  case (Cons a attempts)
  show ?case
    using Cons [of "Suc calls"]
    by (auto split: http_reply.splits option.splits)
qed


lemma fetch_loop_failed_step:
  "attempt_failed (transport calls)
   \<Longrightarrow> fetch_loop transport (a # attempts) calls = fetch_loop transport attempts (Suc calls)"
  by (cases "transport calls") (simp_all add: attempt_failed_def)

lemma fetch_loop_skip:
  "n \<le> length attempts \<Longrightarrow> (\<forall>i<n. attempt_failed (transport (calls + i)))
   \<Longrightarrow> fetch_loop transport attempts calls = fetch_loop transport (drop n attempts) (calls + n)"
proof (induction n arbitrary: attempts calls)
  case 0
  show ?case by simp
next
  case (Suc n)
  then obtain a rest where as: "attempts = a # rest" by (cases attempts) auto
  have f0: "attempt_failed (transport calls)"
    using Suc.prems(2) by (metis add.right_neutral zero_less_Suc)
  have fs: "\<forall>i<n. attempt_failed (transport (Suc calls + i))"
    using Suc.prems(2) by (metis Suc_less_eq add_Suc_shift)
  have "fetch_loop transport rest (Suc calls)
      = fetch_loop transport (drop n rest) (Suc calls + n)"
    using Suc.IH [of rest "Suc calls"] Suc.prems(1) fs by (simp add: as)
  then show ?case
    using fetch_loop_failed_step [of transport calls a rest] f0 by (simp add: as)
qed

lemma drop_three: "k < 3 \<Longrightarrow> \<exists>a rest. drop k [1, 2, 3 :: nat] = a # rest"
proof -
  assume "k < 3"
  then have "k = 0 \<or> k = 1 \<or> k = 2" by arith
  then show ?thesis by (auto simp: numeral_2_eq_2)
qed

text \<open>
  Claim C8. With an empty identifier the fetch raises the validation error and makes no
  request. It never makes more than three requests. With three non-empty identifiers:
  if the attempts before attempt \<open>k\<close> (counted from 0, \<open>k < 3\<close>) failed and attempt
  \<open>k\<close> answers 200 or 201 with a JSON body, that body is returned after \<open>k + 1\<close>
  requests; if it answers 200 or 201 with a body that is not JSON, the error is raised
  at once, after \<open>k + 1\<close> requests; and if three attempts failed, the terminal fetch
  error is raised after three requests. An attempt fails when the transport raises or
  the status is neither 200 nor 201.
\<close>

theorem fetch_form_definition_cloud_retries:
  "(cloud_id = [] \<or> service_desk_id = [] \<or> request_type_id = []
      \<longrightarrow> fetch_form_definition_cloud cloud_id service_desk_id request_type_id transport
          = (Inl (ValueError ''cloud_id, service_desk_id, and request_type_id must not be empty''),
             0))
   \<and> snd (fetch_form_definition_cloud cloud_id service_desk_id request_type_id transport) \<le> 3
   \<and> (cloud_id \<noteq> [] \<and> service_desk_id \<noteq> [] \<and> request_type_id \<noteq> []
       \<and> k < 3 \<and> (\<forall>i<k. attempt_failed (transport i))
       \<and> transport k = Reply status (Some j) \<and> (status = 200 \<or> status = 201)
      \<longrightarrow> fetch_form_definition_cloud cloud_id service_desk_id request_type_id transport
          = (Inr j, Suc k))
   \<and> (cloud_id \<noteq> [] \<and> service_desk_id \<noteq> [] \<and> request_type_id \<noteq> []
       \<and> k < 3 \<and> (\<forall>i<k. attempt_failed (transport i))
       \<and> transport k = Reply status None \<and> (status = 200 \<or> status = 201)
      \<longrightarrow> fetch_form_definition_cloud cloud_id service_desk_id request_type_id transport
          = (Inl (ValueError ''Response from Jira was not JSON''), Suc k))
   \<and> (cloud_id \<noteq> [] \<and> service_desk_id \<noteq> [] \<and> request_type_id \<noteq> []
       \<and> (\<forall>i<3. attempt_failed (transport i))
      \<longrightarrow> fetch_form_definition_cloud cloud_id service_desk_id request_type_id transport
          = (Inl (RuntimeError ''Unable to fetch Jira form JSON after retries''), 3))"
proof -
  let ?fetch = "fetch_form_definition_cloud cloud_id service_desk_id request_type_id transport"
  let ?ok = "cloud_id \<noteq> [] \<and> service_desk_id \<noteq> [] \<and> request_type_id \<noteq> []"
  have a: "cloud_id = [] \<or> service_desk_id = [] \<or> request_type_id = []
      \<longrightarrow> ?fetch
          = (Inl (ValueError ''cloud_id, service_desk_id, and request_type_id must not be empty''),
             0)"
    by (simp add: fetch_form_definition_cloud_def)
  have b: "snd ?fetch \<le> 3"
    using fetch_loop_calls [of transport "[1, 2, 3]" 0]
    by (simp add: fetch_form_definition_cloud_def)
  have reach: "?fetch = fetch_loop transport (drop k [1, 2, 3]) k"
    if "?ok" "k \<le> 3" "\<forall>i<k. attempt_failed (transport i)" for k
    using fetch_loop_skip [of k "[1, 2, 3]" transport 0] that
    by (simp add: fetch_form_definition_cloud_def)
  have c: "?ok \<and> k < 3 \<and> (\<forall>i<k. attempt_failed (transport i))
       \<and> transport k = Reply status (Some j) \<and> (status = 200 \<or> status = 201)
      \<longrightarrow> ?fetch = (Inr j, Suc k)"
  proof (intro impI, elim conjE)
    assume h: "cloud_id \<noteq> []" "service_desk_id \<noteq> []" "request_type_id \<noteq> []" "k < 3"
      "\<forall>i<k. attempt_failed (transport i)" "transport k = Reply status (Some j)"
      "status = 200 \<or> status = 201"
    obtain x rest where d: "drop k [1, 2, 3 :: nat] = x # rest"
      using drop_three [OF h(4)] by blast
    have "?fetch = fetch_loop transport (x # rest) k"
      using reach [of k] h d by simp
    then show "?fetch = (Inr j, Suc k)"
      using h(6,7) by auto
  qed
  have d: "?ok \<and> k < 3 \<and> (\<forall>i<k. attempt_failed (transport i))
       \<and> transport k = Reply status None \<and> (status = 200 \<or> status = 201)
      \<longrightarrow> ?fetch = (Inl (ValueError ''Response from Jira was not JSON''), Suc k)"
  proof (intro impI, elim conjE)
    assume h: "cloud_id \<noteq> []" "service_desk_id \<noteq> []" "request_type_id \<noteq> []" "k < 3"
      "\<forall>i<k. attempt_failed (transport i)" "transport k = Reply status None"
      "status = 200 \<or> status = 201"
    obtain x rest where d: "drop k [1, 2, 3 :: nat] = x # rest"
      using drop_three [OF h(4)] by blast
    have "?fetch = fetch_loop transport (x # rest) k"
      using reach [of k] h d by simp
    then show "?fetch = (Inl (ValueError ''Response from Jira was not JSON''), Suc k)"
      using h(6,7) by auto
  qed
  have e: "?ok \<and> (\<forall>i<3. attempt_failed (transport i))
      \<longrightarrow> ?fetch = (Inl (RuntimeError ''Unable to fetch Jira form JSON after retries''), 3)"
  proof (intro impI, elim conjE)
    assume h: "cloud_id \<noteq> []" "service_desk_id \<noteq> []" "request_type_id \<noteq> []"
      "\<forall>i<3. attempt_failed (transport i)"
    have "?fetch = fetch_loop transport (drop 3 [1, 2, 3]) 3"
      using reach [of 3] h by simp
    then show "?fetch = (Inl (RuntimeError ''Unable to fetch Jira form JSON after retries''), 3)"
      by simp
  qed
  from a b c d e show ?thesis by blast
qed

text \<open>
  An empty cloud id; success on the third attempt; a body that is not JSON on the second
  attempt; three answers with status 500.
\<close>

theorem fetch_form_definition_cloud_retries_witness:
  "fetch_form_definition_cloud [] ''1'' ''2'' (\<lambda>n. Reply 200 (Some ''form''))
     = (Inl (ValueError ''cloud_id, service_desk_id, and request_type_id must not be empty''), 0)
   \<and> fetch_form_definition_cloud ''c'' ''1'' ''2''
        (\<lambda>n. if n = 0 then TransportError else if n = 1 then Reply 503 None
              else Reply 200 (Some ''form''))
     = (Inr ''form'', 3)
   \<and> fetch_form_definition_cloud ''c'' ''1'' ''2''
        (\<lambda>n. if n = 0 then Reply 404 (Some ''page'') else Reply 201 None)
     = (Inl (ValueError ''Response from Jira was not JSON''), 2)
   \<and> fetch_form_definition_cloud ''c'' ''1'' ''2'' (\<lambda>n. Reply 500 (Some ''form''))
     = (Inl (RuntimeError ''Unable to fetch Jira form JSON after retries''), 3)"
proof -
  have f1: "\<forall>i<2::nat. attempt_failed
              ((\<lambda>n. if n = 0 then TransportError else if n = 1 then Reply 503 None
                     else Reply 200 (Some ''form'')) i)"
    by (auto simp: attempt_failed_def)
  have f2: "\<forall>i<1::nat. attempt_failed
              ((\<lambda>n. if n = 0 then Reply 404 (Some ''page'') else Reply 201 None) i)"
    by (auto simp: attempt_failed_def)
  have f3: "\<forall>i<3::nat. attempt_failed ((\<lambda>n. Reply 500 (Some ''form'')) i)"
    by (auto simp: attempt_failed_def)
  show ?thesis
    using fetch_form_definition_cloud_retries
            [where cloud_id = "[]" and service_desk_id = "''1''" and request_type_id = "''2''"
               and transport = "\<lambda>n. Reply 200 (Some ''form'')"]
          fetch_form_definition_cloud_retries
            [where cloud_id = "''c''" and service_desk_id = "''1''" and request_type_id = "''2''"
               and k = 2 and status = 200 and j = "''form''"
               and transport = "\<lambda>n. if n = 0 then TransportError
                                     else if n = 1 then Reply 503 None
                                     else Reply 200 (Some ''form'')"]
          fetch_form_definition_cloud_retries
            [where cloud_id = "''c''" and service_desk_id = "''1''" and request_type_id = "''2''"
               and k = 1 and status = 201
               and transport = "\<lambda>n. if n = 0 then Reply 404 (Some ''page'')
                                     else Reply 201 None"]
          fetch_form_definition_cloud_retries
            [where cloud_id = "''c''" and service_desk_id = "''1''" and request_type_id = "''2''"
               and transport = "\<lambda>n. Reply 500 (Some ''form'')"]
          f1 f2 f3
    by simp
qed

section \<open>Processing a row\<close>

lemma build_form_answers_email_to_issue:
  "build_form_answers cfg so r qs cm t = Inr (x, t') \<Longrightarrow> email_to_issue t' = email_to_issue t"
  by (auto simp: build_form_answers_def Let_def flag_request_def
      split: option.splits if_splits prod.splits)

lemma process_row_skip:
  assumes "row_email r = Some e" "e \<noteq> []" "map_of (get_or (email_to_issue t) []) e = Some v"
  shows "process_row cfg so js jr r t qs cm = (Inr (t, False, None, Some e), [])"
proof -
  have "e \<in> fst ` set (get_or (email_to_issue t) [])"
    using assms(3) by (metis map_of_eq_None_iff option.distinct(1))
  then show ?thesis
    by (simp add: process_row_def assms(1,2))
qed

lemma process_row_no_email:
  assumes "row_email r = None \<or> row_email r = Some []"
  shows "process_row cfg so js jr r t qs cm = (Inr (t, False, None, None), [])"
  using assms by (auto simp: process_row_def)

lemma process_row_error_no_calls:
  "process_row cfg so js jr r t qs cm = (Inl err, calls) \<Longrightarrow> calls = []"
  by (auto simp: process_row_def Let_def split: option.splits if_splits sum.splits prod.splits)

lemma process_row_append_only:
  assumes "process_row cfg so js jr r t qs cm = (Inr (t', p, c, em), calls)"
    and "map_of (get_or (email_to_issue t) []) k = Some v"
  shows "map_of (get_or (email_to_issue t') []) k = Some v"
proof (cases "row_email r")
  case None
  then show ?thesis using assms by (simp add: process_row_def)
next
  case (Some e)
  show ?thesis
  proof (cases "e = [] \<or> e \<in> fst ` set (get_or (email_to_issue t) [])")
    case True
    then consider "e = []" | "e \<noteq> []" "e \<in> fst ` set (get_or (email_to_issue t) [])"
      by blast
    then show ?thesis
    proof cases
      case 1
      then show ?thesis using assms Some by (simp add: process_row_def)
    next
      case 2
      then show ?thesis using assms Some by (simp add: process_row_def)
    qed
  next
    case False
    then have ne: "map_of (get_or (email_to_issue t) []) e = None"
      by (simp add: map_of_eq_None_iff)
    then have ke: "k \<noteq> e" using assms(2) by auto
    obtain x t1 where b: "build_form_answers cfg so r qs cm t = Inr (x, t1)"
      using assms(1) Some False
      by (cases "build_form_answers cfg so r qs cm t") (auto simp: process_row_def)
    have e1: "email_to_issue t1 = email_to_issue t"
      by (rule build_form_answers_email_to_issue [OF b])
    have "email_to_issue t' = email_to_issue t1
        \<or> (\<exists>key. email_to_issue t' = Some (dict_set (get_or (email_to_issue t1) []) e key))"
      using assms(1) Some False b
      by (auto simp: process_row_def Let_def split: option.splits sum.splits)
    then show ?thesis
      using e1 assms(2) ke by (auto simp: map_of_dict_set get_or_def)
  qed
qed


lemma loop_step_keeps:
  assumes "map_of (get_or (email_to_issue (rs_tracking s)) []) e = Some v"
  shows "map_of (get_or (email_to_issue (rs_tracking (loop_step cfg so js w qs cm s r))) []) e
           = Some v
       \<and> (\<forall>req. (Some e, req) \<in> set (rs_submitted (loop_step cfg so js w qs cm s r))
              \<longrightarrow> (Some e, req) \<in> set (rs_submitted s))"
proof (cases "row_email r = Some e")
  case True
  show ?thesis
  proof (cases "e = []")
    case True
    with \<open>row_email r = Some e\<close> show ?thesis
      using assms by (simp add: loop_step_def process_row_no_email str_truthy_def)
  next
    case False
    show ?thesis
      using assms
      by (simp add: loop_step_def process_row_skip [OF True False assms] str_truthy_def)
  qed
next
  case False
  obtain res calls where p: "process_row cfg so js (jira w) r (rs_tracking s) qs cm = (res, calls)"
    by (cases "process_row cfg so js (jira w) r (rs_tracking s) qs cm") auto
  show ?thesis
  proof (cases res)
    case (Inl err)
    then show ?thesis
      using assms False p by (auto simp: loop_step_def)
  next
    case (Inr x)
    obtain t' pr c em where x: "x = (t', pr, c, em)" by (cases x) auto
    have "map_of (get_or (email_to_issue t') []) e = Some v"
      using process_row_append_only [OF p [unfolded Inr x] assms] .
    then show ?thesis
      using False p Inr x by (auto simp: loop_step_def)
  qed
qed

lemma run_rows_keeps:
  "map_of (get_or (email_to_issue (rs_tracking s)) []) e = Some v
   \<Longrightarrow> map_of (get_or (email_to_issue (rs_tracking (run_rows cfg so js w qs cm s rows))) []) e
         = Some v
       \<and> (\<forall>req. (Some e, req) \<in> set (rs_submitted (run_rows cfg so js w qs cm s rows))
              \<longrightarrow> (Some e, req) \<in> set (rs_submitted s))"
proof (induction rows arbitrary: s)
  case Nil
  then show ?case by (simp add: run_rows_def)
next
  case (Cons r rows)
  have st: "map_of (get_or (email_to_issue (rs_tracking (loop_step cfg so js w qs cm s r))) []) e
           = Some v"
    and sb: "\<forall>req. (Some e, req) \<in> set (rs_submitted (loop_step cfg so js w qs cm s r))
              \<longrightarrow> (Some e, req) \<in> set (rs_submitted s)"
    using loop_step_keeps [OF Cons.prems] by blast+
  have r: "run_rows cfg so js w qs cm s (r # rows)
      = run_rows cfg so js w qs cm (loop_step cfg so js w qs cm s r) rows"
    by (simp add: run_rows_def)
  show ?case
    using Cons.IH [OF st] sb by (simp add: r)
qed

text \<open>
  Claim C2. When \<open>email_to_issue\<close> already has an entry for the identity key of the row,
  \<open>process_row\<close> returns the tracking state it was given, the flag \<open>False\<close>, and makes
  no call of \<open>create_request_on_jira\<close>. Whatever \<open>process_row\<close> returns, every entry
  \<open>email_to_issue\<close> had is still there with the same value. Consequently, over any
  sequence of rows run through the loop of \<open>main\<close> from a state that has an entry for a
  key, the entry keeps its value and no submission is made for that key.
\<close>

theorem process_row_idempotent:
  "(row_email r = Some e \<and> e \<noteq> [] \<and> map_of (get_or (email_to_issue t) []) e = Some v
      \<longrightarrow> process_row cfg so js jr r t qs cm = (Inr (t, False, None, Some e), []))
   \<and> (process_row cfg so js jr r t qs cm = (Inr (t', p, c, em), calls)
       \<and> map_of (get_or (email_to_issue t) []) k = Some v
      \<longrightarrow> map_of (get_or (email_to_issue t') []) k = Some v)
   \<and> (map_of (get_or (email_to_issue (rs_tracking s)) []) e = Some v
      \<longrightarrow> map_of (get_or (email_to_issue (rs_tracking (run_rows cfg so js w qs cm s rows))) []) e
            = Some v
          \<and> (\<forall>req. (Some e, req) \<in> set (rs_submitted (run_rows cfg so js w qs cm s rows))
                 \<longrightarrow> (Some e, req) \<in> set (rs_submitted s)))"
  using process_row_skip [of r e t v cfg so js jr qs cm]
        process_row_append_only [of cfg so js jr r t qs cm t' p c em calls k v]
        run_rows_keeps [of s e v cfg so js w qs cm rows]
  by blast


lemmas process_eval = process_row_def merge_handsets_def create_request_on_jira_def
  extract_issue_key_def json_get_def created_iso_of_def summary_of_def description_of_def

text \<open>
  Two runs over the same row: the first submits once and records \<open>K-1\<close>; the second,
  started from that state, submits nothing and returns the state unchanged.
\<close>

theorem process_row_idempotent_witness:
  "fst (process_row ex_config (\<lambda>v. []) (\<lambda>j. []) (jira (ex_world []))
          (ex_request ''Permanent'' ''2024-06-01'' ''2024-07-01'') empty_tracking
          ex_form_questions ex_choice_map)
     = Inr (empty_tracking\<lparr>email_to_issue := Some [(''a@x.com'', JStr ''K-1'')]\<rparr>,
            True, Some ''2024-05-01'', Some ''a@x.com'')
   \<and> length (snd (process_row ex_config (\<lambda>v. []) (\<lambda>j. []) (jira (ex_world []))
          (ex_request ''Permanent'' ''2024-06-01'' ''2024-07-01'') empty_tracking
          ex_form_questions ex_choice_map)) = 1
   \<and> process_row ex_config (\<lambda>v. []) (\<lambda>j. []) (jira (ex_world []))
          (ex_request ''Permanent'' ''2024-06-01'' ''2024-07-01'')
          (empty_tracking\<lparr>email_to_issue := Some [(''a@x.com'', JStr ''K-1'')]\<rparr>)
          ex_form_questions ex_choice_map
     = (Inr (empty_tracking\<lparr>email_to_issue := Some [(''a@x.com'', JStr ''K-1'')]\<rparr>,
             False, None, Some ''a@x.com''), [])"
proof -
  have e: "row_email (ex_request ''Permanent'' ''2024-06-01'' ''2024-07-01'') = Some ''a@x.com''"
    by (simp add: ex_request_def row_email_def py_or_def str_truthy_def)
  have m: "map_of (get_or (email_to_issue
             (empty_tracking\<lparr>email_to_issue := Some [(''a@x.com'', JStr ''K-1'')]\<rparr>)) [])
             ''a@x.com'' = Some (JStr ''K-1'')"
    by (simp add: get_or_def)
  have first: "process_row ex_config (\<lambda>v. []) (\<lambda>j. []) (jira (ex_world []))
          (ex_request ''Permanent'' ''2024-06-01'' ''2024-07-01'') empty_tracking
          ex_form_questions ex_choice_map
       = (Inr (empty_tracking\<lparr>email_to_issue := Some [(''a@x.com'', JStr ''K-1'')]\<rparr>,
            True, Some ''2024-05-01'', Some ''a@x.com''),
          [\<lparr> req_site_domain = ''example.atlassian.net'', req_service_desk_id = ''1'',
             req_request_type_id = ''2'',
             req_summary = ''Phone equipment request - a@x.com'',
             req_description = ''Phone equipment request'',
             req_form_answers = [(''10'', Choices [''2'']), (''11'', DateAns ''2024-06-01''),
                                 (''12'', DateAns ''2024-07-01'')] \<rparr>])"
    by (simp add: ex_request_def ex_config_def ex_choice_map_def ex_form_questions_def
        ex_world_def empty_tracking_def process_eval answers_eval date_eval)
  show ?thesis
    using process_row_idempotent
            [where r = "ex_request ''Permanent'' ''2024-06-01'' ''2024-07-01''"
               and e = "''a@x.com''" and v = "JStr ''K-1''"
               and t = "empty_tracking\<lparr>email_to_issue := Some [(''a@x.com'', JStr ''K-1'')]\<rparr>"
               and cfg = ex_config and so = "\<lambda>v. []" and js = "\<lambda>j. []"
               and jr = "jira (ex_world [])" and qs = ex_form_questions and cm = ex_choice_map]
          e m first
    by simp
qed


section \<open>A run of the pipeline\<close>

lemmas main_eval = main_def fetch_form_definition_cloud_def extract_questions_from_form_def
  build_choice_label_to_id_map_def choice_inner_map_def filter_rows_for_processing_def
  run_rows_def loop_step_def finalize_tracking_after_run_def

















text \<open>
  The same run when midnight passes between the row and the end of the run: the row is
  dated 2024-05-02 and handled on 2024-05-02, the run is finalized on 2024-05-03. The
  watermark is 2024-05-03 and the same-day list holds \<open>b@x.com\<close>, whose row is dated the
  day before the watermark: the dates compared with the rows are the ones read while the
  rows are handled, the watermark is the one read at the end.
\<close>

lemma main_run_past_midnight_example:
  "(case main ex_config (\<lambda>v. []) (\<lambda>j. [])
           (ex_world_late [ex_run_row ''b@x.com'' ''2024-05-02'']) ex_tracking of
      Inl err \<Rightarrow> None
    | Inr s \<Rightarrow> Some (rs_tracking s))
     = Some \<lparr> last_run_date = Some ''2024-05-03'',
              processed_emails_same_date = Some [''b@x.com''],
              email_to_issue = Some [(''b@x.com'', JStr ''K-1'')],
              flagged_requests = Some [] \<rparr>"
  by (simp add: main_eval ex_config_def ex_world_def ex_world_late_def ex_form_def
      ex_tracking_def ex_run_row_def process_eval answers_eval date_eval)



end
